theory Spec2Isabelle
  imports Main "HOL-Library.Word"
begin

unbundle bit_operations_syntax

section \<open>Types and constants of the MMU\<close>

text \<open>
  The model follows \<^verbatim>\<open>src/riscv_mmu.c\<close> as compiled with \<^verbatim>\<open>USE_RV64\<close>, the
  build in which every function of the file exists: \<^verbatim>\<open>vaddr_t\<close>, \<^verbatim>\<open>paddr_t\<close>
  and \<^verbatim>\<open>size_t\<close> are 64-bit words, \<^verbatim>\<open>uint8_t\<close> is an 8-bit word. A host
  pointer into the RAM buffer (\<^verbatim>\<open>vmptr_t\<close>) is the byte offset from
  \<^verbatim>\<open>mem.data\<close>, again a 64-bit word, so pointer arithmetic wraps as the
  host's does.
\<close>

type_synonym vaddr_t = "64 word"
type_synonym paddr_t = "64 word"
type_synonym vmptr_t = "64 word"
type_synonym uint8_t = "8 word"

text \<open>
  Two compile-time parameters are declared in headers that are not part of
  the sources at hand: the width of \<^verbatim>\<open>bitcnt_t\<close> and the number of TLB
  slots. They are parameters of the model.
\<close>

record build_cfg =
  bitcnt_bits :: nat
  TLB_MASK :: "64 word"

text \<open>Conversion of a C \<^verbatim>\<open>int\<close> to the unsigned type \<^verbatim>\<open>bitcnt_t\<close>.\<close>

definition to_bitcnt :: "build_cfg \<Rightarrow> int \<Rightarrow> nat" where
  "to_bitcnt cfg n = nat (n mod 2 ^ bitcnt_bits cfg)"

text \<open>
  Modelled from the spec: the page geometry of \<^verbatim>\<open>riscv_mmu.h\<close> (section 3),
  4 KiB pages.
\<close>

definition PAGE_SHIFT :: nat where "PAGE_SHIFT = 12"
definition PAGE_SIZE :: nat where "PAGE_SIZE = 4096"
definition PAGE_MASK :: "64 word" where "PAGE_MASK = 0xFFF"
definition PAGE_PNMASK :: "64 word" where "PAGE_PNMASK = NOT 0xFFF"

text \<open>
  Modelled from the spec: the access classes and PTE bits of
  \<^verbatim>\<open>riscv_mmu.h\<close> (sections 3 and 4.2), one-hot masks at the
  positions of the R, W and X bits of a PTE. A leaf is a PTE with R or X
  set (section 4.2, step d), which is what makes the walker's separate test
  of W on a non-leaf meaningful.
\<close>

definition MMU_VALID_PTE :: "64 word" where "MMU_VALID_PTE = 0x1"
definition MMU_READ :: uint8_t where "MMU_READ = 0x2"
definition MMU_WRITE :: uint8_t where "MMU_WRITE = 0x4"
definition MMU_EXEC :: uint8_t where "MMU_EXEC = 0x8"
definition MMU_LEAF_PTE :: "64 word" where "MMU_LEAF_PTE = 0xA"
definition MMU_PAGE_ACCESSED :: "64 word" where "MMU_PAGE_ACCESSED = 0x40"

definition SV32_VPN_BITS :: nat where "SV32_VPN_BITS = 10"
definition SV32_VPN_MASK :: "64 word" where "SV32_VPN_MASK = 0x3FF"
definition SV32_PHYS_BITS :: nat where "SV32_PHYS_BITS = 34"
definition SV32_LEVELS :: nat where "SV32_LEVELS = 2"

definition SV64_VPN_BITS :: nat where "SV64_VPN_BITS = 9"
definition SV64_VPN_MASK :: "64 word" where "SV64_VPN_MASK = 0x1FF"
definition SV64_PHYS_BITS :: nat where "SV64_PHYS_BITS = 56"
definition SV39_LEVELS :: uint8_t where "SV39_LEVELS = 3"
definition SV48_LEVELS :: uint8_t where "SV48_LEVELS = 4"
definition SV57_LEVELS :: uint8_t where "SV57_LEVELS = 5"

definition CSR_STATUS_MPRV_MASK :: "64 word" where "CSR_STATUS_MPRV_MASK = push_bit 17 1"
definition CSR_STATUS_MXR_MASK :: "64 word" where "CSR_STATUS_MXR_MASK = push_bit 19 1"

definition CSR_SATP_MODE_PHYS :: uint8_t where "CSR_SATP_MODE_PHYS = 0"
definition CSR_SATP_MODE_SV32 :: uint8_t where "CSR_SATP_MODE_SV32 = 1"
definition CSR_SATP_MODE_SV39 :: uint8_t where "CSR_SATP_MODE_SV39 = 8"
definition CSR_SATP_MODE_SV48 :: uint8_t where "CSR_SATP_MODE_SV48 = 9"
definition CSR_SATP_MODE_SV57 :: uint8_t where "CSR_SATP_MODE_SV57 = 10"

text \<open>
  Modelled from the spec: the privilege level S and the trap causes
  (section 6), which the source takes from other headers.
\<close>

definition PRIVILEGE_SUPERVISOR :: uint8_t where "PRIVILEGE_SUPERVISOR = 1"

definition TRAP_INSTR_FETCH :: "32 word" where "TRAP_INSTR_FETCH = 1"
definition TRAP_LOAD_FAULT :: "32 word" where "TRAP_LOAD_FAULT = 5"
definition TRAP_STORE_FAULT :: "32 word" where "TRAP_STORE_FAULT = 7"
definition TRAP_INSTR_PAGEFAULT :: "32 word" where "TRAP_INSTR_PAGEFAULT = 12"
definition TRAP_LOAD_PAGEFAULT :: "32 word" where "TRAP_LOAD_PAGEFAULT = 13"
definition TRAP_STORE_PAGEFAULT :: "32 word" where "TRAP_STORE_PAGEFAULT = 15"

text \<open>
  Modelled from the spec: \<^verbatim>\<open>bit_mask\<close> and \<^verbatim>\<open>bit_cut\<close> of \<^verbatim>\<open>bit_ops.h\<close>
  (a mask of \<open>count\<close> low bits; \<open>bits\<close> bits of a value from position \<open>pos\<close>).
\<close>

definition bit_mask :: "nat \<Rightarrow> 64 word" where
  "bit_mask count = mask count"

definition bit_cut :: "64 word \<Rightarrow> nat \<Rightarrow> nat \<Rightarrow> 64 word" where
  "bit_cut val pos bits = drop_bit pos val AND bit_mask bits"

definition CSR_STATUS_MPP :: "64 word \<Rightarrow> 64 word" where
  "CSR_STATUS_MPP x = bit_cut x 11 2"

text \<open>
  Modelled from the spec: \<^verbatim>\<open>sign_extend\<close> of \<^verbatim>\<open>bit_ops.h\<close>. The value is
  extended from its low \<open>bits\<close> bits, that is, from the sign bit
  \<open>bits - 1\<close>. (For \<open>bits = 0\<close> or \<open>bits > 64\<close> the C shifts are undefined;
  here the value is then returned as it is.)
\<close>

definition sign_extend :: "64 word \<Rightarrow> nat \<Rightarrow> 64 word" where
  "sign_extend val bits = signed_take_bit (bits - 1) val"

section \<open>The hart and its memory\<close>

record rvvm_ram =
  mem_begin :: paddr_t
  mem_size :: paddr_t
  mem_data :: "vmptr_t \<Rightarrow> 8 word"

record rvvm_tlb_entry =
  tlb_r :: vaddr_t
  tlb_w :: vaddr_t
  tlb_e :: vaddr_t
  tlb_ptr :: vmptr_t

text \<open>
  The TLB array is a function from the slot index; only the indices up to
  \<open>TLB_MASK\<close> are slots of the C array. \<open>trap_log\<close> records the calls of
  \<^verbatim>\<open>riscv_trap\<close>, see below.
\<close>

record rvvm_hart =
  priv_mode :: uint8_t
  csr_status :: "64 word"
  mmu_mode :: uint8_t
  root_page_table :: paddr_t
  tlb :: "64 word \<Rightarrow> rvvm_tlb_entry"
  mem :: rvvm_ram
  trap_log :: "(32 word \<times> vaddr_t) list"

text \<open>
  Modelled from the spec: \<^verbatim>\<open>riscv_phys_translate\<close> of \<^verbatim>\<open>riscv_mmu.h\<close>
  (section 4.1): a host pointer if the physical address lies in
  \<open>[begin, begin + size)\<close>, else null.
\<close>

definition riscv_phys_translate :: "rvvm_ram \<Rightarrow> paddr_t \<Rightarrow> vmptr_t option" where
  "riscv_phys_translate m addr =
     (if mem_begin m \<le> addr \<and> addr - mem_begin m < mem_size m
      then Some (addr - mem_begin m) else None)"

text \<open>
  Modelled from the spec: \<^verbatim>\<open>riscv_trap\<close> (section 6) raises a guest exception
  with a cause and a \<open>tval\<close>; the model records both.
\<close>

definition riscv_trap :: "rvvm_hart \<Rightarrow> 32 word \<Rightarrow> vaddr_t \<Rightarrow> rvvm_hart" where
  "riscv_trap vm cause tval = vm\<lparr>trap_log := trap_log vm @ [(cause, tval)]\<rparr>"

section \<open>Software TLB\<close>

definition riscv_tlb_flush :: "rvvm_hart \<Rightarrow> rvvm_hart" where
  "riscv_tlb_flush vm =
     (let zeroed = (\<lambda>_. \<lparr>tlb_r = 0, tlb_w = 0, tlb_e = 0, tlb_ptr = 0\<rparr>) in
      vm\<lparr>tlb := zeroed(0 := (zeroed 0)\<lparr>tlb_r := - 1, tlb_w := - 1, tlb_e := - 1\<rparr>)\<rparr>)"

definition riscv_tlb_flush_page :: "build_cfg \<Rightarrow> rvvm_hart \<Rightarrow> vaddr_t \<Rightarrow> rvvm_hart" where
  "riscv_tlb_flush_page cfg vm addr =
     (let vpn = drop_bit PAGE_SHIFT addr;
          i = vpn AND TLB_MASK cfg in
      vm\<lparr>tlb := (tlb vm)(i := (tlb vm i)\<lparr>tlb_r := vpn - 1, tlb_w := vpn - 1, tlb_e := vpn - 1\<rparr>)\<rparr>)"

text \<open>
  Modelled from the spec: the macro \<^verbatim>\<open>TLB_VADDR\<close> of \<^verbatim>\<open>riscv_mmu.h\<close>
  (section 4.4: \<open>ptr = host_base - (vaddr & PAGE_PNMASK)\<close>, so the macro
  leaves the address as it is).
\<close>

definition TLB_VADDR :: "vaddr_t \<Rightarrow> vaddr_t" where
  "TLB_VADDR vaddr = vaddr"

definition riscv_tlb_put :: "build_cfg \<Rightarrow> rvvm_hart \<Rightarrow> vaddr_t \<Rightarrow> paddr_t \<Rightarrow> uint8_t \<Rightarrow> rvvm_hart" where
  "riscv_tlb_put cfg vm vaddr0 paddr0 op =
     (let vpn = drop_bit PAGE_SHIFT vaddr0;
          vaddr = vaddr0 AND PAGE_PNMASK;
          paddr = paddr0 AND PAGE_PNMASK in
      case riscv_phys_translate (mem vm) paddr of
        None \<Rightarrow> vm
      | Some ptr \<Rightarrow>
          let i = vpn AND TLB_MASK cfg;
              entry = tlb vm i;
              entry =
                (if op = MMU_READ then
                   (let entry = entry\<lparr>tlb_r := vpn\<rparr>;
                        entry = (if tlb_w entry \<noteq> vpn then entry\<lparr>tlb_w := vpn - 1\<rparr> else entry);
                        entry = (if tlb_e entry \<noteq> vpn then entry\<lparr>tlb_e := vpn - 1\<rparr> else entry)
                    in entry)
                 else if op = MMU_WRITE then
                   (let entry = entry\<lparr>tlb_r := vpn\<rparr>;
                        entry = entry\<lparr>tlb_w := vpn\<rparr>;
                        entry = (if tlb_e entry \<noteq> vpn then entry\<lparr>tlb_e := vpn - 1\<rparr> else entry)
                    in entry)
                 else if op = MMU_EXEC then
                   (let entry = (if tlb_r entry \<noteq> vpn then entry\<lparr>tlb_r := vpn - 1\<rparr> else entry);
                        entry = (if tlb_w entry \<noteq> vpn then entry\<lparr>tlb_w := vpn - 1\<rparr> else entry);
                        entry = entry\<lparr>tlb_e := vpn\<rparr>
                    in entry)
                 else
                   entry\<lparr>tlb_r := vpn - 1, tlb_w := vpn - 1, tlb_e := vpn - 1\<rparr>);
              entry = entry\<lparr>tlb_ptr := ptr - TLB_VADDR vaddr\<rparr>
          in vm\<lparr>tlb := (tlb vm)(i := entry)\<rparr>)"

text \<open>
  Modelled from the spec: the TLB lookup of \<^verbatim>\<open>riscv_mmu.h\<close> (section 4.4):
  if the tag field for \<open>op\<close> at \<open>slot(VPN)\<close> equals VPN, the result is
  \<open>ptr + vaddr\<close>; else it is a miss. An \<open>op\<close> that is no access class
  has no tag field and misses.
\<close>

definition tlb_tag :: "uint8_t \<Rightarrow> rvvm_tlb_entry \<Rightarrow> vaddr_t option" where
  "tlb_tag op entry =
     (if op = MMU_READ then Some (tlb_r entry)
      else if op = MMU_WRITE then Some (tlb_w entry)
      else if op = MMU_EXEC then Some (tlb_e entry)
      else None)"

definition riscv_tlb_lookup :: "build_cfg \<Rightarrow> rvvm_hart \<Rightarrow> vaddr_t \<Rightarrow> uint8_t \<Rightarrow> vmptr_t option" where
  "riscv_tlb_lookup cfg vm vaddr op =
     (let vpn = drop_bit PAGE_SHIFT vaddr;
          entry = tlb vm (vpn AND TLB_MASK cfg) in
      if tlb_tag op entry = Some vpn then Some (tlb_ptr entry + vaddr) else None)"

section \<open>Page-table entries in guest memory\<close>

text \<open>
  Modelled from the spec: the little-endian accessors of \<^verbatim>\<open>riscv_mmu.h\<close>
  and the compare-and-swap of \<^verbatim>\<open>atomics.h\<close> (section 5: a single
  compare-and-swap against the observed PTE word, 4 bytes for Sv32 and 8 for
  Sv64, little-endian). The hart is the only agent of the model, so the swap
  finds the word it has just read.
\<close>

definition read_uint32_le :: "(vmptr_t \<Rightarrow> 8 word) \<Rightarrow> vmptr_t \<Rightarrow> 32 word" where
  "read_uint32_le d p =
     ucast (d p) OR push_bit 8 (ucast (d (p + 1))) OR push_bit 16 (ucast (d (p + 2)))
       OR push_bit 24 (ucast (d (p + 3)))"

definition write_uint32_le :: "(vmptr_t \<Rightarrow> 8 word) \<Rightarrow> vmptr_t \<Rightarrow> 32 word \<Rightarrow> (vmptr_t \<Rightarrow> 8 word)" where
  "write_uint32_le d p v =
     d(p := ucast v, p + 1 := ucast (drop_bit 8 v), p + 2 := ucast (drop_bit 16 v),
       p + 3 := ucast (drop_bit 24 v))"

definition atomic_cas_uint32_le ::
  "(vmptr_t \<Rightarrow> 8 word) \<Rightarrow> vmptr_t \<Rightarrow> 32 word \<Rightarrow> 32 word \<Rightarrow> (vmptr_t \<Rightarrow> 8 word)" where
  "atomic_cas_uint32_le d p expected desired =
     (if read_uint32_le d p = expected then write_uint32_le d p desired else d)"

definition read_uint64_le :: "(vmptr_t \<Rightarrow> 8 word) \<Rightarrow> vmptr_t \<Rightarrow> 64 word" where
  "read_uint64_le d p =
     ucast (d p) OR push_bit 8 (ucast (d (p + 1))) OR push_bit 16 (ucast (d (p + 2)))
       OR push_bit 24 (ucast (d (p + 3))) OR push_bit 32 (ucast (d (p + 4)))
       OR push_bit 40 (ucast (d (p + 5))) OR push_bit 48 (ucast (d (p + 6)))
       OR push_bit 56 (ucast (d (p + 7)))"

definition write_uint64_le :: "(vmptr_t \<Rightarrow> 8 word) \<Rightarrow> vmptr_t \<Rightarrow> 64 word \<Rightarrow> (vmptr_t \<Rightarrow> 8 word)" where
  "write_uint64_le d p v =
     d(p := ucast v, p + 1 := ucast (drop_bit 8 v), p + 2 := ucast (drop_bit 16 v),
       p + 3 := ucast (drop_bit 24 v), p + 4 := ucast (drop_bit 32 v),
       p + 5 := ucast (drop_bit 40 v), p + 6 := ucast (drop_bit 48 v),
       p + 7 := ucast (drop_bit 56 v))"

definition atomic_cas_uint64_le ::
  "(vmptr_t \<Rightarrow> 8 word) \<Rightarrow> vmptr_t \<Rightarrow> 64 word \<Rightarrow> 64 word \<Rightarrow> (vmptr_t \<Rightarrow> 8 word)" where
  "atomic_cas_uint64_le d p expected desired =
     (if read_uint64_le d p = expected then write_uint64_le d p desired else d)"

section \<open>Page walkers\<close>

text \<open>
  A walk returns the physical address (\<open>None\<close> for \<^verbatim>\<open>return false\<close>), the
  contents of guest RAM after it, and the list of the physical addresses
  from which it loaded a PTE, in order. The list is a record of what the
  walk did; nothing in the walk depends on it.

  The \<^verbatim>\<open>for\<close> loop is the recursion on the number of levels left; its
  locals \<open>pagetable\<close> and \<open>bit_off\<close> are arguments. \<open>bit_off\<close> is a
  \<^verbatim>\<open>bitcnt_t\<close>: each assignment to it converts with \<open>to_bitcnt\<close>, as does
  each \<^verbatim>\<open>bitcnt_t\<close> argument of \<open>bit_mask\<close> and \<open>sign_extend\<close>. (A shift by
  64 or more is undefined in C and gives 0 here; no width of \<^verbatim>\<open>bitcnt_t\<close> up
  to 12 bits, in particular not \<^verbatim>\<open>uint8_t\<close>, reaches such a shift.)
\<close>

type_synonym walk_result = "paddr_t option \<times> (vmptr_t \<Rightarrow> 8 word) \<times> paddr_t list"

fun sv32_walk ::
  "build_cfg \<Rightarrow> rvvm_ram \<Rightarrow> vaddr_t \<Rightarrow> uint8_t \<Rightarrow> nat \<Rightarrow> paddr_t \<Rightarrow> nat \<Rightarrow> paddr_t list \<Rightarrow> walk_result"
where
  "sv32_walk cfg m vaddr access 0 pagetable bit_off reads = (None, mem_data m, reads)"
| "sv32_walk cfg m vaddr access (Suc n) pagetable bit_off reads =
     (let pgt_off = push_bit 2 (drop_bit bit_off vaddr AND SV32_VPN_MASK) in
      case riscv_phys_translate m (pagetable + pgt_off) of
        None \<Rightarrow> (None, mem_data m, reads)
      | Some pte_addr \<Rightarrow>
          let pte = (ucast (read_uint32_le (mem_data m) pte_addr) :: paddr_t);
              reads = reads @ [pagetable + pgt_off] in
          if pte AND MMU_VALID_PTE \<noteq> 0 then
            if pte AND MMU_LEAF_PTE \<noteq> 0 then
              if pte AND ucast access \<noteq> 0 then
                let vmask = bit_mask bit_off;
                    pmask = push_bit bit_off
                              (bit_mask (to_bitcnt cfg (int SV32_PHYS_BITS - int bit_off)));
                    pte_flags = pte OR MMU_PAGE_ACCESSED OR push_bit 5 (ucast (access AND MMU_WRITE));
                    pte_shift = push_bit 2 pte in
                if pte_shift AND (vmask AND pmask) \<noteq> 0 then (None, mem_data m, reads)
                else
                  (Some ((pte_shift AND pmask) OR (vaddr AND vmask)),
                   (if pte \<noteq> pte_flags
                    then atomic_cas_uint32_le (mem_data m) pte_addr (ucast pte) (ucast pte_flags)
                    else mem_data m),
                   reads)
              else (None, mem_data m, reads)
            else if pte AND ucast MMU_WRITE = 0 then
              sv32_walk cfg m vaddr access n (push_bit PAGE_SHIFT (drop_bit 10 pte))
                (to_bitcnt cfg (int bit_off - int SV32_VPN_BITS)) reads
            else (None, mem_data m, reads)
          else (None, mem_data m, reads))"

definition riscv_mmu_translate_sv32 ::
  "build_cfg \<Rightarrow> rvvm_hart \<Rightarrow> vaddr_t \<Rightarrow> uint8_t \<Rightarrow> walk_result" where
  "riscv_mmu_translate_sv32 cfg vm vaddr access =
     sv32_walk cfg (mem vm) vaddr access SV32_LEVELS (root_page_table vm)
       (to_bitcnt cfg (int SV32_VPN_BITS + int PAGE_SHIFT)) []"

fun rv64_walk ::
  "build_cfg \<Rightarrow> rvvm_ram \<Rightarrow> vaddr_t \<Rightarrow> uint8_t \<Rightarrow> nat \<Rightarrow> paddr_t \<Rightarrow> nat \<Rightarrow> paddr_t list \<Rightarrow> walk_result"
where
  "rv64_walk cfg m vaddr access 0 pagetable bit_off reads = (None, mem_data m, reads)"
| "rv64_walk cfg m vaddr access (Suc n) pagetable bit_off reads =
     (let pgt_off = push_bit 3 (drop_bit bit_off vaddr AND SV64_VPN_MASK) in
      case riscv_phys_translate m (pagetable + pgt_off) of
        None \<Rightarrow> (None, mem_data m, reads)
      | Some pte_addr \<Rightarrow>
          let pte = read_uint64_le (mem_data m) pte_addr;
              reads = reads @ [pagetable + pgt_off] in
          if pte AND MMU_VALID_PTE \<noteq> 0 then
            if pte AND MMU_LEAF_PTE \<noteq> 0 then
              if pte AND ucast access \<noteq> 0 then
                let vmask = bit_mask bit_off;
                    pmask = push_bit bit_off
                              (bit_mask (to_bitcnt cfg (int SV64_PHYS_BITS - int bit_off)));
                    pte_flags = pte OR MMU_PAGE_ACCESSED OR push_bit 5 (ucast (access AND MMU_WRITE));
                    pte_shift = push_bit 2 pte in
                if pte_shift AND (vmask AND pmask) \<noteq> 0 then (None, mem_data m, reads)
                else
                  (Some ((pte_shift AND pmask) OR (vaddr AND vmask)),
                   atomic_cas_uint64_le (mem_data m) pte_addr pte pte_flags,
                   reads)
              else (None, mem_data m, reads)
            else if pte AND ucast MMU_WRITE = 0 then
              rv64_walk cfg m vaddr access n
                (push_bit PAGE_SHIFT (drop_bit 10 pte) AND bit_mask SV64_PHYS_BITS)
                (to_bitcnt cfg (int bit_off - int SV64_VPN_BITS)) reads
            else (None, mem_data m, reads)
          else (None, mem_data m, reads))"

definition sv64_bit_off :: "build_cfg \<Rightarrow> uint8_t \<Rightarrow> nat" where
  "sv64_bit_off cfg sv_levels =
     to_bitcnt cfg (int (unat sv_levels) * int SV64_VPN_BITS + int PAGE_SIZE - int SV64_VPN_BITS)"

definition riscv_mmu_translate_rv64 ::
  "build_cfg \<Rightarrow> rvvm_hart \<Rightarrow> vaddr_t \<Rightarrow> uint8_t \<Rightarrow> uint8_t \<Rightarrow> walk_result" where
  "riscv_mmu_translate_rv64 cfg vm vaddr access sv_levels =
     (let bit_off = sv64_bit_off cfg sv_levels in
      if vaddr \<noteq> sign_extend vaddr (to_bitcnt cfg (int bit_off + int SV64_VPN_BITS))
      then (None, mem_data (mem vm), [])
      else rv64_walk cfg (mem vm) vaddr access (unat sv_levels) (root_page_table vm) bit_off [])"

definition riscv_mmu_translate ::
  "build_cfg \<Rightarrow> rvvm_hart \<Rightarrow> vaddr_t \<Rightarrow> uint8_t \<Rightarrow> walk_result" where
  "riscv_mmu_translate cfg vm vaddr access0 =
     (let priv = priv_mode vm;
          priv = (if csr_status vm AND CSR_STATUS_MPRV_MASK \<noteq> 0 \<and> access0 \<noteq> MMU_EXEC
                  then ucast (CSR_STATUS_MPP (csr_status vm)) else priv);
          access = (if csr_status vm AND CSR_STATUS_MXR_MASK \<noteq> 0 \<and> access0 = MMU_READ
                    then MMU_EXEC else access0) in
      if priv \<le> PRIVILEGE_SUPERVISOR then
        if mmu_mode vm = CSR_SATP_MODE_PHYS then (Some vaddr, mem_data (mem vm), [])
        else if mmu_mode vm = CSR_SATP_MODE_SV32 then riscv_mmu_translate_sv32 cfg vm vaddr access
        else if mmu_mode vm = CSR_SATP_MODE_SV39 then riscv_mmu_translate_rv64 cfg vm vaddr access SV39_LEVELS
        else if mmu_mode vm = CSR_SATP_MODE_SV48 then riscv_mmu_translate_rv64 cfg vm vaddr access SV48_LEVELS
        else if mmu_mode vm = CSR_SATP_MODE_SV57 then riscv_mmu_translate_rv64 cfg vm vaddr access SV57_LEVELS
        else (None, mem_data (mem vm), [])
      else (Some vaddr, mem_data (mem vm), []))"

section \<open>MMIO access engine\<close>

text \<open>
  A device declares its operation window and a read callback. The callback
  is a function of the size and offset it is called with, returning the
  bytes it stores at the destination.

  The result of a read is the list of the \<open>size\<close> destination bytes, each
  \<open>Some\<close> byte stored by a callback or \<open>None\<close> where no callback stored
  anything (the byte keeps whatever the buffer held: for the local array
  \<^verbatim>\<open>tmp\<close>, indeterminate stack contents), together with the list of the
  callback invocations (size, offset) in order. An error is a failed
  \<^verbatim>\<open>assert\<close>, an access beyond the 16 bytes of \<^verbatim>\<open>tmp\<close>, or the fuel of
  the model running out (the \<^verbatim>\<open>while\<close> loop and the recursion need not
  terminate).
\<close>

record rvvm_mmio_dev =
  min_op_size :: uint8_t
  max_op_size :: uint8_t
  dev_read :: "uint8_t \<Rightarrow> paddr_t \<Rightarrow> 8 word list"

datatype mmio_error = AssertFailed | OutOfBounds | OutOfFuel

type_synonym mmio_result = "8 word option list \<times> (uint8_t \<times> paddr_t) list"

definition stored :: "nat \<Rightarrow> 8 word list \<Rightarrow> 8 word option list" where
  "stored n bs = map (\<lambda>i. if i < length bs then Some (bs ! i) else None) [0..<n]"

fun new_size_loop :: "nat \<Rightarrow> uint8_t \<Rightarrow> nat \<Rightarrow> uint8_t option" where
  "new_size_loop 0 new_size bound = None"
| "new_size_loop (Suc fuel) new_size bound =
     (if unat new_size < bound then new_size_loop fuel (push_bit 1 new_size) bound
      else Some new_size)"

fun riscv_mmio_read_unaligned ::
  "nat \<Rightarrow> rvvm_mmio_dev \<Rightarrow> uint8_t \<Rightarrow> paddr_t \<Rightarrow> mmio_error + mmio_result" where
  "riscv_mmio_read_unaligned 0 mmio sz offset = Inl OutOfFuel"
| "riscv_mmio_read_unaligned (Suc fuel) mmio sz offset =
     (if \<not> max_op_size mmio \<ge> min_op_size mmio then Inl AssertFailed
      else if sz < min_op_size mmio \<or> offset AND (ucast (min_op_size mmio) - 1) \<noteq> 0 then
        (let aligned_offset = offset AND NOT (ucast (min_op_size mmio) - 1);
             offset_diff = (ucast (offset - aligned_offset) :: uint8_t) in
         case new_size_loop (Suc fuel) (min_op_size mmio) (unat sz + unat offset_diff) of
           None \<Rightarrow> Inl OutOfFuel
         | Some new_size \<Rightarrow>
             (case riscv_mmio_read_unaligned fuel mmio (min_op_size mmio) aligned_offset of
                Inl e \<Rightarrow> Inl e
              | Inr (bytes, calls) \<Rightarrow>
                  if length bytes > 16 \<or> unat offset_diff + unat sz > 16 then Inl OutOfBounds
                  else
                    (let tmp = bytes @ replicate (16 - length bytes) None in
                     Inr (map (\<lambda>i. tmp ! (unat offset_diff + i)) [0..<unat sz], calls))))
      else if sz > max_op_size mmio then
        (let size_half = drop_bit 1 sz in
         case riscv_mmio_read_unaligned fuel mmio size_half offset of
           Inl e \<Rightarrow> Inl e
         | Inr (bytes1, calls1) \<Rightarrow>
             (case riscv_mmio_read_unaligned fuel mmio size_half (offset + ucast size_half) of
                Inl e \<Rightarrow> Inl e
              | Inr (bytes2, calls2) \<Rightarrow>
                  Inr (bytes1 @ bytes2 @ replicate (unat sz - 2 * unat size_half) None,
                       calls1 @ calls2)))
      else Inr (stored (unat sz) (dev_read mmio sz offset), [(sz, offset)]))"

text \<open>
  The body of \<^verbatim>\<open>riscv_mmio_op\<close> is commented out in the source: it returns
  false for every access.
\<close>

definition riscv_mmio_op ::
  "rvvm_hart \<Rightarrow> paddr_t \<Rightarrow> 8 word list \<Rightarrow> 64 word \<Rightarrow> uint8_t \<Rightarrow> bool" where
  "riscv_mmio_op vm addr dest sz access = False"

section \<open>MMU operation dispatcher\<close>

text \<open>
  Modelled from the spec: \<^verbatim>\<open>riscv_block_in_page\<close> of \<^verbatim>\<open>riscv_mmu.h\<close>
  (section 4.6): the range \<open>[addr, addr + size)\<close> does not cross a 4 KiB
  boundary.
\<close>

definition riscv_block_in_page :: "vaddr_t \<Rightarrow> 64 word \<Rightarrow> bool" where
  "riscv_block_in_page addr sz \<longleftrightarrow> unat (addr AND PAGE_MASK) + unat sz \<le> PAGE_SIZE"

text \<open>
  \<^verbatim>\<open>memcpy\<close> between the caller's buffer and guest RAM. The buffer \<open>dest\<close>
  is the list of the \<open>size\<close> bytes at the pointer \<^verbatim>\<open>dest\<close>.
\<close>

definition memcpy_to_ram ::
  "(vmptr_t \<Rightarrow> 8 word) \<Rightarrow> vmptr_t \<Rightarrow> 8 word list \<Rightarrow> nat \<Rightarrow> (vmptr_t \<Rightarrow> 8 word)" where
  "memcpy_to_ram d ptr src n = (\<lambda>a. if unat (a - ptr) < n then src ! unat (a - ptr) else d a)"

definition memcpy_from_ram :: "(vmptr_t \<Rightarrow> 8 word) \<Rightarrow> vmptr_t \<Rightarrow> nat \<Rightarrow> 8 word list" where
  "memcpy_from_ram d ptr n = map (\<lambda>i. d (ptr + of_nat i)) [0..<n]"

definition access_fault_cause :: "uint8_t \<Rightarrow> 32 word" where
  "access_fault_cause access =
     (if access = MMU_WRITE then TRAP_STORE_FAULT
      else if access = MMU_READ then TRAP_LOAD_FAULT
      else if access = MMU_EXEC then TRAP_INSTR_FETCH
      else 0)"

definition page_fault_cause :: "uint8_t \<Rightarrow> 32 word" where
  "page_fault_cause access =
     (if access = MMU_WRITE then TRAP_STORE_PAGEFAULT
      else if access = MMU_READ then TRAP_LOAD_PAGEFAULT
      else if access = MMU_EXEC then TRAP_INSTR_PAGEFAULT
      else 0)"

text \<open>
  The result is the returned flag, the hart after the call (its RAM, TLB and
  recorded traps) and the contents of the caller's buffer. The page walker
  updates guest RAM in place, so the hart carries the RAM the walk left
  behind on every path. \<^verbatim>\<open>riscv_jit_flush\<close> is a stub without effect.
\<close>

function riscv_mmu_op ::
  "build_cfg \<Rightarrow> rvvm_hart \<Rightarrow> vaddr_t \<Rightarrow> 8 word list \<Rightarrow> 64 word \<Rightarrow> uint8_t
     \<Rightarrow> bool \<times> rvvm_hart \<times> 8 word list" where
  "riscv_mmu_op cfg vm addr dest sz access =
     (if \<not> riscv_block_in_page addr sz then
        (let part_size = of_nat PAGE_SIZE - (addr AND PAGE_MASK) in
         case riscv_mmu_op cfg vm addr (take (unat part_size) dest) part_size access of
           (False, vm1, dest1) \<Rightarrow> (False, vm1, dest1 @ drop (unat part_size) dest)
         | (True, vm1, dest1) \<Rightarrow>
             (case riscv_mmu_op cfg vm1 (addr + part_size) (drop (unat part_size) dest)
                     (sz - part_size) access of
                (ok, vm2, dest2) \<Rightarrow> (ok, vm2, dest1 @ dest2)))
      else
        (case riscv_mmu_translate cfg vm addr access of
           (Some paddr, data', reads) \<Rightarrow>
             (let vm = vm\<lparr>mem := (mem vm)\<lparr>mem_data := data'\<rparr>\<rparr> in
              case riscv_phys_translate (mem vm) paddr of
                Some ptr \<Rightarrow>
                  (let vm = riscv_tlb_put cfg vm addr paddr access in
                   if access = MMU_WRITE then
                     (True,
                      vm\<lparr>mem := (mem vm)\<lparr>mem_data :=
                            memcpy_to_ram (mem_data (mem vm)) ptr dest (unat sz)\<rparr>\<rparr>,
                      dest)
                   else (True, vm, memcpy_from_ram (mem_data (mem vm)) ptr (unat sz)))
              | None \<Rightarrow>
                  if riscv_mmio_op vm paddr dest sz access then (True, vm, dest)
                  else (False, riscv_trap vm (access_fault_cause access) addr, dest))
         | (None, data', reads) \<Rightarrow>
             (let vm = vm\<lparr>mem := (mem vm)\<lparr>mem_data := data'\<rparr>\<rparr> in
              (False, riscv_trap vm (page_fault_cause access) addr, dest))))"
  by pat_completeness auto
termination riscv_mmu_op
proof (relation "measure (\<lambda>(cfg, vm, addr, dest, sz, access). unat sz)")
  show "wf (measure (\<lambda>(cfg, vm, addr, dest, sz, access). unat sz))" by simp
next
  fix cfg :: build_cfg and vm :: rvvm_hart and addr :: vaddr_t and dest :: "8 word list"
    and sz :: "64 word" and access :: uint8_t and x
  assume a: "\<not> riscv_block_in_page addr sz"
    and x: "x = word_of_nat PAGE_SIZE - (addr AND PAGE_MASK)"
  have le: "addr AND PAGE_MASK \<le> 0xFFF"
    unfolding PAGE_MASK_def by (rule word_and_le1)
  then have "addr AND PAGE_MASK \<le> of_nat PAGE_SIZE"
    by (simp add: PAGE_SIZE_def word_le_nat_alt)
  then have "unat x = 4096 - unat (addr AND PAGE_MASK)"
    by (simp add: x unat_sub PAGE_SIZE_def)
  moreover have "unat (addr AND PAGE_MASK) < 4096"
    using le by (simp add: word_le_nat_alt)
  ultimately have part: "unat x < unat sz" "0 < unat x"
    using a by (simp_all add: riscv_block_in_page_def PAGE_SIZE_def)
  show "((cfg, vm, addr, take (unat x) dest, x, access), cfg, vm, addr, dest, sz, access)
       \<in> measure (\<lambda>(cfg, vm, addr, dest, sz, access). unat sz)"
    using part by simp
  fix vm1 :: rvvm_hart
  have "unat (sz - x) < unat sz"
    using part by (simp add: unat_sub word_le_nat_alt)
  then show "((cfg, vm1, addr + x, drop (unat x) dest, sz - x, access), cfg, vm, addr, dest, sz, access)
       \<in> measure (\<lambda>(cfg, vm, addr, dest, sz, access). unat sz)"
    by simp
qed

declare riscv_mmu_op.simps [simp del]

section \<open>Notions of the specification and concrete configurations\<close>

text \<open>
  The access classes a cached translation answers after an insertion with
  \<open>op\<close>, in the words of the specification (section 8, property 4):
  \<open>implied(R) = {R}\<close>, \<open>implied(W) = {R, W}\<close>, \<open>implied(X) = {X}\<close>.
\<close>

definition implied :: "uint8_t \<Rightarrow> uint8_t set" where
  "implied op =
     (if op = MMU_READ then {MMU_READ}
      else if op = MMU_WRITE then {MMU_READ, MMU_WRITE}
      else if op = MMU_EXEC then {MMU_EXEC}
      else {})"

text \<open>
  The build with \<^verbatim>\<open>bitcnt_t\<close> an 8-bit unsigned integer and 256 TLB slots; a
  hart in supervisor mode under Sv39 whose 64 KiB of RAM at \<open>0x80000000\<close>
  are zero, with the root page table at the start of RAM.
\<close>

definition cfg_u8 :: build_cfg where
  "cfg_u8 = \<lparr>bitcnt_bits = 8, TLB_MASK = 0xFF\<rparr>"

definition ram0 :: rvvm_ram where
  "ram0 = \<lparr>mem_begin = 0x80000000, mem_size = 0x10000, mem_data = (\<lambda>_. 0)\<rparr>"

definition hart0 :: rvvm_hart where
  "hart0 = \<lparr>priv_mode = 1, csr_status = 0, mmu_mode = CSR_SATP_MODE_SV39,
             root_page_table = 0x80000000,
             tlb = (\<lambda>_. \<lparr>tlb_r = 0, tlb_w = 0, tlb_e = 0, tlb_ptr = 0\<rparr>),
             mem = ram0, trap_log = []\<rparr>"

text \<open>
  Scenario S2 of the specification (section 8): a hart under Sv32 with 4 MiB
  of RAM at \<open>0x80000000\<close>, the root page table at \<open>0x80100000\<close> with the
  PTE \<open>root_pte\<close> at index 1, and the PTE \<open>0x0020044F\<close> at index 3 of the
  table at \<open>0x80200000\<close>.
\<close>

definition ram_s2 :: "32 word \<Rightarrow> rvvm_ram" where
  "ram_s2 root_pte =
     \<lparr>mem_begin = 0x80000000, mem_size = 0x400000,
      mem_data = write_uint32_le (write_uint32_le (\<lambda>_. 0) 0x100004 root_pte) 0x20000C 0x0020044F\<rparr>"

definition hart_s2 :: "32 word \<Rightarrow> rvvm_hart" where
  "hart_s2 root_pte = hart0\<lparr>mmu_mode := CSR_SATP_MODE_SV32, root_page_table := 0x80100000,
      mem := ram_s2 root_pte\<rparr>"

text \<open>
  A hart under Sv39 whose root page table at \<open>0x80001000\<close> holds at index 0
  the leaf PTE \<open>0x20000C0B\<close> (V, R and X set, A and D clear, PPN \<open>0x80003\<close>).
\<close>

definition hart_sv39 :: rvvm_hart where
  "hart_sv39 = hart0\<lparr>root_page_table := 0x80001000,
      mem := ram0\<lparr>mem_data := write_uint64_le (\<lambda>_. 0) 0x1000 0x20000C0B\<rparr>\<rparr>"

text \<open>
  Scenario S6 of the specification: a hart in machine mode under Sv32 with
  MPRV and MXR set and MPP = S (\<open>status = 0xA0800\<close>), whose root page
  table at \<open>0x80001000\<close> holds at index 0 the leaf PTE \<open>0x20000009\<close>
  (V and X set, R clear, PPN \<open>0x80000\<close>).
\<close>

definition hart_xonly :: rvvm_hart where
  "hart_xonly = hart0\<lparr>priv_mode := 3, csr_status := 0xA0800, mmu_mode := CSR_SATP_MODE_SV32,
      root_page_table := 0x80001000,
      mem := ram0\<lparr>mem_data := write_uint32_le (\<lambda>_. 0) 0x1000 0x20000009\<rparr>\<rparr>"

text \<open>
  What a walk may do to guest RAM: a walk that returns false leaves it as it
  was; any walk leaves it as it was or sets, in the first byte of the last
  PTE it loaded, the bit A (\<open>0x40\<close>) or the bits A and D (\<open>0xC0\<close>).
\<close>

definition walk_effect :: "rvvm_hart \<Rightarrow> walk_result \<Rightarrow> bool" where
  "walk_effect vm r \<longleftrightarrow>
     (case r of (pa, d, rs) \<Rightarrow>
        (pa = None \<longrightarrow> d = mem_data (mem vm)) \<and>
        (d = mem_data (mem vm) \<or>
         (\<exists>leaf f. rs \<noteq> [] \<and> riscv_phys_translate (mem vm) (last rs) = Some leaf \<and> f \<in> {0x40, 0xC0}
            \<and> d = (mem_data (mem vm))(leaf := mem_data (mem vm) leaf OR f))))"

text \<open>
  A hart under Sv32 whose root page table at \<open>0x80001000\<close> points with
  entry 0 (PTE \<open>0x20000801\<close>) to the table at \<open>0x80002000\<close>. That table
  maps the virtual page 0 to the physical page \<open>0x80003\<close> (leaf PTE
  \<open>0x20000CCF\<close>: V, R, W, X, A and D set) and does not map the virtual
  page 1 (PTE 0).
\<close>

definition hart_cross :: rvvm_hart where
  "hart_cross = hart0\<lparr>mmu_mode := CSR_SATP_MODE_SV32, root_page_table := 0x80001000,
      mem := ram0\<lparr>mem_data :=
        write_uint32_le (write_uint32_le (\<lambda>_. 0) 0x1000 0x20000801) 0x2000 0x20000CCF\<rparr>\<rparr>"

text \<open>
  A device with \<open>min_op_size = max_op_size = 4\<close> whose byte at offset \<open>x\<close>
  is \<open>x mod 256\<close>.
\<close>

definition dev4 :: rvvm_mmio_dev where
  "dev4 = \<lparr>min_op_size = 4, max_op_size = 4,
            dev_read = (\<lambda>sz offset. map (\<lambda>i. ucast (offset + of_nat i)) [0..<unat sz])\<rparr>"

text \<open>
  A hart in supervisor mode under Sv39 with MXR set (\<open>status = 0x80000\<close>)
  whose root page table at \<open>0x80001000\<close> holds at index 0 the leaf PTE
  \<open>0x20000C09\<close> (V and X set, R clear, PPN \<open>0x80003\<close>).
\<close>

definition hart_sv39_xonly :: rvvm_hart where
  "hart_sv39_xonly = hart0\<lparr>csr_status := 0x80000, root_page_table := 0x80001000,
      mem := ram0\<lparr>mem_data := write_uint64_le (\<lambda>_. 0) 0x1000 0x20000C09\<rparr>\<rparr>"

section \<open>Properties of the software TLB\<close>

lemma vpn_not_minus1: "drop_bit PAGE_SHIFT (vaddr :: 64 word) \<noteq> - 1"
proof
  assume h: "drop_bit PAGE_SHIFT vaddr = - 1"
  have "\<not> bit (drop_bit PAGE_SHIFT vaddr) 63"
    by (simp add: bit_drop_bit_eq PAGE_SHIFT_def bit_word_iff_drop_bit_and)
  with h show False by simp
qed

lemma mmu_ops_distinct:
  "MMU_READ \<noteq> MMU_WRITE" "MMU_READ \<noteq> MMU_EXEC" "MMU_WRITE \<noteq> MMU_EXEC"
  by (simp_all add: MMU_READ_def MMU_WRITE_def MMU_EXEC_def)

text \<open>
  Claim C8. After \<open>riscv_tlb_flush\<close>, the lookup of every virtual address
  misses for every access class (and for every other value of \<open>op\<close>),
  whatever the number of slots. A page whose slot is not 0 finds the tag 0,
  and its VPN is not 0; a page of slot 0, VPN 0 among them, finds the tag
  \<open>-1\<close>, which is the VPN of no address.
\<close>

theorem tlb_flush_all_miss:
  "riscv_tlb_lookup cfg (riscv_tlb_flush vm) vaddr op = None"
proof (cases "drop_bit PAGE_SHIFT vaddr AND TLB_MASK cfg = 0")
  case True
  then show ?thesis
    using vpn_not_minus1 [of vaddr]
    by (auto simp: riscv_tlb_lookup_def riscv_tlb_flush_def tlb_tag_def Let_def)
next
  case False
  then have "drop_bit PAGE_SHIFT vaddr \<noteq> 0" by auto
  with False show ?thesis
    by (auto simp: riscv_tlb_lookup_def riscv_tlb_flush_def tlb_tag_def Let_def)
qed

text \<open>
  Claim C7, as stated, fails: \<open>riscv_tlb_put\<close> keeps a tag that already
  holds the VPN. After an insertion for write and then one for execute of
  the same page, a read lookup hits, although read is not in
  \<open>implied(X)\<close>.
\<close>

theorem tlb_put_lookup_counterexample:
  "riscv_phys_translate (mem (riscv_tlb_put cfg_u8 (riscv_tlb_flush hart0) 0x1000 0x80002000 MMU_WRITE))
       (0x80002000 AND PAGE_PNMASK) \<noteq> None
   \<and> \<not> (riscv_tlb_lookup cfg_u8
            (riscv_tlb_put cfg_u8
               (riscv_tlb_put cfg_u8 (riscv_tlb_flush hart0) 0x1000 0x80002000 MMU_WRITE)
               0x1000 0x80002000 MMU_EXEC)
            0x1000 MMU_READ \<noteq> None
          \<longleftrightarrow> MMU_READ \<in> implied MMU_EXEC)"
  by (simp add: riscv_tlb_lookup_def riscv_tlb_put_def riscv_tlb_flush_def tlb_tag_def implied_def
      riscv_phys_translate_def hart0_def ram0_def cfg_u8_def PAGE_SHIFT_def PAGE_PNMASK_def
      MMU_READ_def MMU_WRITE_def MMU_EXEC_def Let_def)

text \<open>
  Claim C7, amended. After \<open>riscv_tlb_put vaddr paddr op\<close> with \<open>paddr\<close>
  backed by RAM, a lookup of \<open>vaddr\<close> with \<open>op'\<close> hits if and only if
  \<open>op'\<close> is in \<open>implied op\<close> or the lookup of \<open>vaddr\<close> with \<open>op'\<close>
  already hit before the insertion.
\<close>

theorem tlb_put_lookup:
  assumes "riscv_phys_translate (mem vm) (paddr AND PAGE_PNMASK) \<noteq> None"
    and "op \<in> {MMU_READ, MMU_WRITE, MMU_EXEC}"
    and "op' \<in> {MMU_READ, MMU_WRITE, MMU_EXEC}"
  shows "riscv_tlb_lookup cfg (riscv_tlb_put cfg vm vaddr paddr op) vaddr op' \<noteq> None
     \<longleftrightarrow> op' \<in> implied op \<or> riscv_tlb_lookup cfg vm vaddr op' \<noteq> None"
  using assms mmu_ops_distinct
  by (auto simp: riscv_tlb_lookup_def riscv_tlb_put_def tlb_tag_def implied_def Let_def
      split: option.splits)

theorem tlb_put_lookup_witness:
  "riscv_phys_translate (mem (riscv_tlb_flush hart0)) (0x80002000 AND PAGE_PNMASK) \<noteq> None
   \<and> MMU_WRITE \<in> {MMU_READ, MMU_WRITE, MMU_EXEC}
   \<and> MMU_EXEC \<in> {MMU_READ, MMU_WRITE, MMU_EXEC}
   \<and> (riscv_tlb_lookup cfg_u8 (riscv_tlb_put cfg_u8 (riscv_tlb_flush hart0) 0x1000 0x80002000 MMU_WRITE)
          0x1000 MMU_EXEC \<noteq> None
        \<longleftrightarrow> MMU_EXEC \<in> implied MMU_WRITE
            \<or> riscv_tlb_lookup cfg_u8 (riscv_tlb_flush hart0) 0x1000 MMU_EXEC \<noteq> None)"
proof -
  have h1: "riscv_phys_translate (mem (riscv_tlb_flush hart0)) (0x80002000 AND PAGE_PNMASK) \<noteq> None"
    by (simp add: riscv_phys_translate_def riscv_tlb_flush_def hart0_def ram0_def PAGE_PNMASK_def)
  have h2: "MMU_WRITE \<in> {MMU_READ, MMU_WRITE, MMU_EXEC}"
    and h3: "MMU_EXEC \<in> {MMU_READ, MMU_WRITE, MMU_EXEC}"
    by simp_all
  show ?thesis
    using h1 h2 h3 tlb_put_lookup [OF h1 h2 h3, of cfg_u8 "0x1000"] by simp
qed

section \<open>Properties of the page walkers\<close>

lemma page_size_mod:
  assumes "0 \<le> k" "k < 4096"
  shows "(4096 + k) mod 2 ^ w = (if w \<le> 12 then k mod 2 ^ w else 4096 + (k :: int))"
proof (cases "w \<le> 12")
  case True
  then have "(2 :: int) ^ w dvd 2 ^ 12" by (rule le_imp_power_dvd)
  moreover have "(2 :: int) ^ 12 = 4096" by simp
  ultimately have "(2 :: int) ^ w dvd 4096" by (simp only:)
  then have "(4096 :: int) mod 2 ^ w = 0" by (simp only: dvd_eq_mod_eq_0)
  then have "(4096 + k) mod 2 ^ w = (0 + k) mod 2 ^ w"
    by (metis mod_add_left_eq)
  then show ?thesis using True by simp
next
  case False
  then have "13 \<le> w" by simp
  then have "(2 :: int) ^ 13 \<le> 2 ^ w" by (intro power_increasing) simp_all
  moreover have "(2 :: int) ^ 13 = 8192" by simp
  ultimately have "4096 + k < 2 ^ w" using assms by linarith
  then have "(4096 + k) mod 2 ^ w = 4096 + k"
    using assms by (intro mod_pos_pos_trivial) simp_all
  then show ?thesis using False by simp
qed

lemma bit_off_not_spec:
  "sv64_bit_off cfg SV39_LEVELS \<noteq> 30"
  "sv64_bit_off cfg SV48_LEVELS \<noteq> 39"
  "sv64_bit_off cfg SV57_LEVELS \<noteq> 48"
proof -
  have b: "(18 :: int) mod 2 ^ bitcnt_bits cfg \<le> 18" "(27 :: int) mod 2 ^ bitcnt_bits cfg \<le> 27"
    "(36 :: int) mod 2 ^ bitcnt_bits cfg \<le> 36"
    by (simp_all add: zmod_le_nonneg_dividend)
  have c: "to_bitcnt cfg 4114 \<noteq> 30" "to_bitcnt cfg 4123 \<noteq> 39" "to_bitcnt cfg 4132 \<noteq> 48"
    using b page_size_mod [of 18 "bitcnt_bits cfg"] page_size_mod [of 27 "bitcnt_bits cfg"]
      page_size_mod [of 36 "bitcnt_bits cfg"]
    by (auto simp: to_bitcnt_def split: if_splits)
  show "sv64_bit_off cfg SV39_LEVELS \<noteq> 30"
    using c(1)
    by (simp add: sv64_bit_off_def SV39_LEVELS_def SV64_VPN_BITS_def PAGE_SIZE_def)
  show "sv64_bit_off cfg SV48_LEVELS \<noteq> 39"
    using c(2)
    by (simp add: sv64_bit_off_def SV48_LEVELS_def SV64_VPN_BITS_def PAGE_SIZE_def)
  show "sv64_bit_off cfg SV57_LEVELS \<noteq> 48"
    using c(3)
    by (simp add: sv64_bit_off_def SV57_LEVELS_def SV64_VPN_BITS_def PAGE_SIZE_def)
qed

lemma bit_off_u8:
  assumes "bitcnt_bits cfg = 8"
  shows "sv64_bit_off cfg SV39_LEVELS = 18" "sv64_bit_off cfg SV48_LEVELS = 27"
    "sv64_bit_off cfg SV57_LEVELS = 36"
  using assms
  by (simp_all add: sv64_bit_off_def to_bitcnt_def SV39_LEVELS_def SV48_LEVELS_def SV57_LEVELS_def
      SV64_VPN_BITS_def PAGE_SIZE_def)

lemma cfg_u8_bits: "bitcnt_bits cfg_u8 = 8"
  by (simp add: cfg_u8_def)

lemma levels_Suc:
  "unat SV39_LEVELS = Suc (Suc (Suc 0))"
  "unat SV48_LEVELS = Suc (Suc (Suc (Suc 0)))"
  "unat SV57_LEVELS = Suc (Suc (Suc (Suc (Suc 0))))"
  "SV32_LEVELS = Suc (Suc 0)"
  by (simp_all add: SV39_LEVELS_def SV48_LEVELS_def SV57_LEVELS_def SV32_LEVELS_def)

lemmas walk_eval = levels_Suc Let_def to_bitcnt_def sign_extend_def
  riscv_phys_translate_def SV64_VPN_BITS_def SV64_VPN_MASK_def SV64_PHYS_BITS_def
  SV32_VPN_BITS_def SV32_VPN_MASK_def SV32_PHYS_BITS_def PAGE_SHIFT_def
  MMU_VALID_PTE_def MMU_LEAF_PTE_def MMU_PAGE_ACCESSED_def MMU_READ_def MMU_WRITE_def MMU_EXEC_def
  read_uint64_le_def read_uint32_le_def bit_mask_def

text \<open>
  Claim C1 does not hold of the code. \<open>riscv_mmu_translate_rv64\<close> computes
  the top-level shift with \<open>PAGE_SIZE\<close> (4096) where the Sv32 walker has
  \<open>PAGE_SHIFT\<close> (12): whatever the width of \<^verbatim>\<open>bitcnt_t\<close>, the shift is
  not 30, 39 or 48, and with an 8-bit \<^verbatim>\<open>bitcnt_t\<close> it is 18, 27 and 36.
  Under Sv39 the walk of the virtual address \<open>0x40000\<close> loads its first
  PTE from \<open>root + 8\<close> (index \<open>(vaddr >> 18) & 0x1FF = 1\<close>), where the
  claim has \<open>root + ((vaddr >> 30) & 0x1FF) * 8 = root\<close>.
\<close>

theorem sv64_top_shift_uses_page_size:
  "(\<forall>cfg. sv64_bit_off cfg SV39_LEVELS \<noteq> 30 \<and> sv64_bit_off cfg SV48_LEVELS \<noteq> 39
        \<and> sv64_bit_off cfg SV57_LEVELS \<noteq> 48)
   \<and> sv64_bit_off cfg_u8 SV39_LEVELS = 18
   \<and> sv64_bit_off cfg_u8 SV48_LEVELS = 27
   \<and> sv64_bit_off cfg_u8 SV57_LEVELS = 36
   \<and> riscv_mmu_translate_rv64 cfg_u8 hart0 0x40000 MMU_READ SV39_LEVELS
       = (None, (\<lambda>_. 0), [0x80000008])
   \<and> root_page_table hart0 + (drop_bit 30 0x40000 AND 0x1FF) * 8 = 0x80000000"
proof -
  have "riscv_mmu_translate_rv64 cfg_u8 hart0 0x40000 MMU_READ SV39_LEVELS
       = (None, (\<lambda>_. 0), [0x80000008])"
    by (simp add: riscv_mmu_translate_rv64_def bit_off_u8 cfg_u8_bits hart0_def ram0_def walk_eval)
  moreover have "root_page_table hart0 + (drop_bit 30 0x40000 AND 0x1FF) * 8 = 0x80000000"
    by (simp add: hart0_def)
  ultimately show ?thesis
    using bit_off_not_spec bit_off_u8 [OF cfg_u8_bits] by simp
qed

lemma signed_take_bit_fix_mono:
  fixes v :: "'a :: len word"
  assumes "signed_take_bit m v = v" and "m \<le> n"
  shows "signed_take_bit n v = v"
proof (rule bit_word_eqI)
  fix k assume k: "k < LENGTH('a)"
  have eq: "\<And>j. j < LENGTH('a) \<Longrightarrow> bit v j = bit v (min m j)"
  proof -
    fix j assume "j < LENGTH('a)"
    then have "bit (signed_take_bit m v) j = bit v (min m j)"
      by (simp add: bit_signed_take_bit_iff min_def)
    then show "bit v j = bit v (min m j)" by (simp add: assms(1))
  qed
  show "bit (signed_take_bit n v) k = bit v k"
  proof (cases "k \<le> n")
    case True
    then show ?thesis using k by (simp add: bit_signed_take_bit_iff min_def)
  next
    case False
    then have nk: "n < k" by simp
    with k have n: "n < LENGTH('a)" by simp
    have "bit v n = bit v m" using eq [OF n] assms(2) by (simp add: min_def)
    moreover have "bit v k = bit v m" using eq [OF k] assms(2) nk by (simp add: min_def)
    moreover have "bit (signed_take_bit n v) k = bit v n"
      using k nk by (simp add: bit_signed_take_bit_iff min_def)
    ultimately show ?thesis by simp
  qed
qed

lemma b8: "bit (w :: 8 word) n \<Longrightarrow> n < 8"
  by (auto dest: bit_imp_le_length)

lemma read32_bytes:
  "ucast (read_uint32_le d p) = d p"
  "ucast (drop_bit 8 (read_uint32_le d p)) = d (p + 1)"
  "ucast (drop_bit 16 (read_uint32_le d p)) = d (p + 2)"
  "ucast (drop_bit 24 (read_uint32_le d p)) = d (p + 3)"
  unfolding read_uint32_le_def
  by (rule bit_word_eqI; auto simp: bit_simps dest: b8)+

lemma read64_bytes:
  "ucast (read_uint64_le d p) = d p"
  "ucast (drop_bit 8 (read_uint64_le d p)) = d (p + 1)"
  "ucast (drop_bit 16 (read_uint64_le d p)) = d (p + 2)"
  "ucast (drop_bit 24 (read_uint64_le d p)) = d (p + 3)"
  "ucast (drop_bit 32 (read_uint64_le d p)) = d (p + 4)"
  "ucast (drop_bit 40 (read_uint64_le d p)) = d (p + 5)"
  "ucast (drop_bit 48 (read_uint64_le d p)) = d (p + 6)"
  "ucast (drop_bit 56 (read_uint64_le d p)) = d (p + 7)"
  unfolding read_uint64_le_def
  by (rule bit_word_eqI; auto simp: bit_simps dest: b8)+

lemma drop_hi:
  "drop_bit 8 (f :: 'a :: len word) = 0 \<Longrightarrow> 8 \<le> k \<Longrightarrow> drop_bit k f = 0"
proof -
  assume a: "drop_bit 8 f = 0" and k: "8 \<le> k"
  have "drop_bit k f = drop_bit (k - 8) (drop_bit 8 f)"
    using k by (simp add: drop_bit_drop_bit)
  then show ?thesis by (simp add: a)
qed

lemma write32_flags:
  assumes "drop_bit 8 f = 0"
  shows "write_uint32_le d p (read_uint32_le d p OR f) = d(p := d p OR ucast f)"
  by (rule ext)
    (simp add: write_uint32_le_def drop_hi [OF assms] read32_bytes unsigned_or_eq drop_bit_or)

lemma write64_flags:
  assumes "drop_bit 8 f = 0"
  shows "write_uint64_le d p (read_uint64_le d p OR f) = d(p := d p OR ucast f)"
  by (rule ext)
    (simp add: write_uint64_le_def drop_hi [OF assms] read64_bytes unsigned_or_eq drop_bit_or)

lemma bit_4: "bit (4 :: 'a :: semiring_bit_operations) n \<longleftrightarrow> possible_bit TYPE('a) n \<and> n = 2"
proof -
  have "(4 :: 'a) = 2 ^ 2" by simp
  then show ?thesis by (simp only: bit_exp_iff)
qed

lemma bit_64: "bit (64 :: 'a :: semiring_bit_operations) n \<longleftrightarrow> possible_bit TYPE('a) n \<and> n = 6"
proof -
  have "(64 :: 'a) = 2 ^ 6" by simp
  then show ?thesis by (simp only: bit_exp_iff)
qed

lemma bit_128: "bit (128 :: 'a :: semiring_bit_operations) n \<longleftrightarrow> possible_bit TYPE('a) n \<and> n = 7"
proof -
  have "(128 :: 'a) = 2 ^ 7" by simp
  then show ?thesis by (simp only: bit_exp_iff)
qed

lemma ad_flags_small:
  "drop_bit 8 (MMU_PAGE_ACCESSED OR push_bit 5 (ucast ((access :: 8 word) AND MMU_WRITE)) :: 64 word) = 0"
  by (rule bit_word_eqI) (auto simp: bit_simps MMU_PAGE_ACCESSED_def MMU_WRITE_def bit_4 bit_64 bit_128)

lemma ad_flags_byte:
  "(ucast (MMU_PAGE_ACCESSED OR push_bit 5 (ucast ((access :: 8 word) AND MMU_WRITE)) :: 64 word) :: 8 word)
     = 0x40 OR push_bit 5 (access AND MMU_WRITE)"
  by (rule bit_word_eqI) (auto simp: bit_simps MMU_PAGE_ACCESSED_def MMU_WRITE_def bit_4 bit_64 bit_128)

lemma ad_flags_byte32:
  "(ucast (ucast (MMU_PAGE_ACCESSED OR push_bit 5 (ucast ((access :: 8 word) AND MMU_WRITE)) :: 64 word) :: 32 word) :: 8 word)
     = 0x40 OR push_bit 5 (access AND MMU_WRITE)"
  by (rule bit_word_eqI) (auto simp: bit_simps MMU_PAGE_ACCESSED_def MMU_WRITE_def bit_4 bit_64 bit_128)

lemma ad_flags_small32:
  "drop_bit 8 (ucast (MMU_PAGE_ACCESSED OR push_bit 5 (ucast ((access :: 8 word) AND MMU_WRITE)) :: 64 word) :: 32 word) = 0"
  by (rule bit_word_eqI) (auto simp: bit_simps MMU_PAGE_ACCESSED_def MMU_WRITE_def bit_4 bit_64 bit_128)

lemma rv64_leaf_data:
  "atomic_cas_uint64_le d p (read_uint64_le d p)
      (read_uint64_le d p OR MMU_PAGE_ACCESSED OR push_bit 5 (ucast (access AND MMU_WRITE)))
    = d(p := d p OR (0x40 OR push_bit 5 (access AND MMU_WRITE)))"
  using write64_flags [OF ad_flags_small, of d p access]
  by (simp add: atomic_cas_uint64_le_def ad_flags_byte or.assoc)

lemma sv32_leaf_data:
  fixes access :: "8 word" and pte :: "64 word"
  assumes pte_def: "pte = ucast (read_uint32_le d p)"
    and pte_flags_def: "pte_flags = pte OR MMU_PAGE_ACCESSED OR push_bit 5 (ucast (access AND MMU_WRITE))"
  shows "(if pte \<noteq> pte_flags then atomic_cas_uint32_le d p (ucast pte) (ucast pte_flags) else d)
    = d(p := d p OR (0x40 OR push_bit 5 (access AND MMU_WRITE)))"
proof -
  let ?f = "MMU_PAGE_ACCESSED OR push_bit 5 (ucast (access AND MMU_WRITE)) :: 64 word"
  have rt32: "(ucast pte :: 32 word) = read_uint32_le d p"
    unfolding pte_def by (rule bit_word_eqI) (auto simp: bit_simps)
  have fl: "(ucast pte_flags :: 32 word) = read_uint32_le d p OR ucast ?f"
    unfolding pte_flags_def by (simp add: unsigned_or_eq rt32 or.assoc)
  have wr: "atomic_cas_uint32_le d p (ucast pte) (ucast pte_flags)
      = d(p := d p OR (0x40 OR push_bit 5 (access AND MMU_WRITE)))"
    using write32_flags [OF ad_flags_small32, of d p access]
    by (simp add: atomic_cas_uint32_le_def rt32 fl ad_flags_byte32)
  show ?thesis
  proof (cases "pte = pte_flags")
    case False
    then show ?thesis using wr by simp
  next
    case True
    have b0: "(ucast pte :: 8 word) = d p"
      unfolding pte_def read_uint32_le_def
      by (rule bit_word_eqI) (auto simp: bit_simps dest: b8)
    have "(ucast pte_flags :: 8 word) = d p OR (0x40 OR push_bit 5 (access AND MMU_WRITE))"
    proof -
      have "(ucast pte_flags :: 8 word) = ucast pte OR ucast ?f"
        unfolding pte_flags_def by (simp only: unsigned_or_eq or.assoc)
      then show ?thesis by (simp only: b0 ad_flags_byte)
    qed
    with True b0 have "d p OR (0x40 OR push_bit 5 (access AND MMU_WRITE)) = d p" by simp
    then show ?thesis using True by simp
  qed
qed

lemma sv32_walk_result:
  "case sv32_walk cfg m vaddr access n pt bo rs of
     (None, d, rs') \<Rightarrow> d = mem_data m
   | (Some pa, d, rs') \<Rightarrow>
       (\<exists>leaf. rs' \<noteq> [] \<and> riscv_phys_translate m (last rs') = Some leaf
          \<and> d = (mem_data m)(leaf := mem_data m leaf OR (0x40 OR push_bit 5 (access AND MMU_WRITE))))"
proof (induction n arbitrary: pt bo rs)
  case 0
  show ?case by simp
next
  case (Suc n)
  show ?case
    by (simp add: Let_def sv32_leaf_data [OF refl refl] Suc.IH split: option.split)
qed

lemma rv64_walk_result:
  "case rv64_walk cfg m vaddr access n pt bo rs of
     (None, d, rs') \<Rightarrow> d = mem_data m
   | (Some pa, d, rs') \<Rightarrow>
       (\<exists>leaf. rs' \<noteq> [] \<and> riscv_phys_translate m (last rs') = Some leaf
          \<and> d = (mem_data m)(leaf := mem_data m leaf OR (0x40 OR push_bit 5 (access AND MMU_WRITE))))"
proof (induction n arbitrary: pt bo rs)
  case 0
  show ?case by simp
next
  case (Suc n)
  show ?case
    by (simp add: Let_def rv64_leaf_data Suc.IH split: option.split)
qed

lemma ad_byte:
  "access \<in> {MMU_READ, MMU_WRITE, MMU_EXEC} \<Longrightarrow>
   (0x40 OR push_bit 5 (access AND MMU_WRITE) :: 8 word) = (if access = MMU_WRITE then 0xC0 else 0x40)"
  by (auto simp: MMU_READ_def MMU_WRITE_def MMU_EXEC_def)

lemmas s2_eval = riscv_mmu_translate_sv32_def hart_s2_def ram_s2_def hart0_def cfg_u8_bits walk_eval
  write_uint32_le_def atomic_cas_uint32_le_def mask_numeral

text \<open>
  Claim C4, as stated, fails. The PPN of the PTE \<open>0x00080401\<close> is
  \<open>0x00080401 >> 10 = 0x201\<close>, so the walker takes the next-level table
  to be at \<open>0x201000\<close>, not at \<open>0x80200000\<close>: it loads the root entry,
  finds \<open>0x201000 + 3 * 4\<close> outside RAM and returns false, without
  reading the table at \<open>0x80200000\<close>.
\<close>

theorem sv32_s2_counterexample:
  "read_uint32_le (mem_data (mem (hart_s2 0x00080401))) 0x100004 = 0x00080401
   \<and> read_uint32_le (mem_data (mem (hart_s2 0x00080401))) 0x20000C = 0x0020044F
   \<and> riscv_phys_translate (mem (hart_s2 0x00080401)) 0x80100004 = Some 0x100004
   \<and> riscv_phys_translate (mem (hart_s2 0x00080401)) 0x8020000C = Some 0x20000C
   \<and> riscv_mmu_translate_sv32 cfg_u8 (hart_s2 0x00080401) 0x00403ABC MMU_WRITE
        = (None, mem_data (mem (hart_s2 0x00080401)), [0x80100004])"
  by (simp add: s2_eval)

text \<open>
  Claim C4, amended: with the root entry at index 1 the PTE \<open>0x20080001\<close>
  (V set, PPN \<open>0x80200\<close>, the table at \<open>0x80200000\<close>), translating
  \<open>0x00403ABC\<close> for write succeeds with the physical address
  \<open>0x00801ABC\<close>, after loading the two PTEs, and the leaf PTE in guest
  memory is updated from \<open>0x0020044F\<close> to \<open>0x002004CF\<close>.
\<close>

theorem sv32_s2_amended:
  "riscv_phys_translate (mem (hart_s2 0x20080001)) 0x80100004 = Some 0x100004
   \<and> riscv_phys_translate (mem (hart_s2 0x20080001)) 0x8020000C = Some 0x20000C
   \<and> read_uint32_le (mem_data (mem (hart_s2 0x20080001))) 0x100004 = 0x20080001
   \<and> read_uint32_le (mem_data (mem (hart_s2 0x20080001))) 0x20000C = 0x0020044F
   \<and> (case riscv_mmu_translate_sv32 cfg_u8 (hart_s2 0x20080001) 0x00403ABC MMU_WRITE of
        (pa, d, rs) \<Rightarrow> pa = Some 0x00801ABC \<and> rs = [0x80100004, 0x8020000C]
           \<and> read_uint32_le d 0x20000C = 0x002004CF)"
  by (simp add: s2_eval)

text \<open>
  Claim C5. A successful walk of either walker leaves guest RAM as it was,
  except for the first byte of the leaf PTE, the last PTE it loaded: this
  byte, which holds the bits V, R, W, X, U, G, A (\<open>0x40\<close>) and D
  (\<open>0x80\<close>), gets A and D set under write access, and A set under read or
  execute access. The other bytes of the PTE (the PPN) and all other bytes
  of RAM are unchanged.
\<close>

theorem walk_sets_only_AD:
  assumes "access \<in> {MMU_READ, MMU_WRITE, MMU_EXEC}"
  shows "(riscv_mmu_translate_sv32 cfg vm vaddr access = (Some pa, d, rs) \<longrightarrow>
           (\<exists>leaf. rs \<noteq> [] \<and> riscv_phys_translate (mem vm) (last rs) = Some leaf
              \<and> d = (mem_data (mem vm))
                     (leaf := mem_data (mem vm) leaf OR (if access = MMU_WRITE then 0xC0 else 0x40))))
       \<and> (riscv_mmu_translate_rv64 cfg vm vaddr access sv_levels = (Some pa, d, rs) \<longrightarrow>
           (\<exists>leaf. rs \<noteq> [] \<and> riscv_phys_translate (mem vm) (last rs) = Some leaf
              \<and> d = (mem_data (mem vm))
                     (leaf := mem_data (mem vm) leaf OR (if access = MMU_WRITE then 0xC0 else 0x40))))"
proof (intro conjI impI)
  assume "riscv_mmu_translate_sv32 cfg vm vaddr access = (Some pa, d, rs)"
  then show "\<exists>leaf. rs \<noteq> [] \<and> riscv_phys_translate (mem vm) (last rs) = Some leaf
              \<and> d = (mem_data (mem vm))
                     (leaf := mem_data (mem vm) leaf OR (if access = MMU_WRITE then 0xC0 else 0x40))"
    using sv32_walk_result [where cfg = cfg and m = "mem vm" and vaddr = vaddr and access = access
        and n = SV32_LEVELS and pt = "root_page_table vm"
        and bo = "to_bitcnt cfg (int SV32_VPN_BITS + int PAGE_SHIFT)" and rs = "[]"]
      ad_byte [OF assms]
    by (simp add: riscv_mmu_translate_sv32_def)
next
  assume "riscv_mmu_translate_rv64 cfg vm vaddr access sv_levels = (Some pa, d, rs)"
  then show "\<exists>leaf. rs \<noteq> [] \<and> riscv_phys_translate (mem vm) (last rs) = Some leaf
              \<and> d = (mem_data (mem vm))
                     (leaf := mem_data (mem vm) leaf OR (if access = MMU_WRITE then 0xC0 else 0x40))"
    using rv64_walk_result [where cfg = cfg and m = "mem vm" and vaddr = vaddr and access = access
        and n = "unat sv_levels" and pt = "root_page_table vm"
        and bo = "sv64_bit_off cfg sv_levels" and rs = "[]"]
      ad_byte [OF assms]
    by (simp add: riscv_mmu_translate_rv64_def Let_def split: if_splits)
qed

lemma sv39_eval:
  "riscv_mmu_translate_rv64 cfg_u8 hart_sv39 0x2ABC MMU_READ SV39_LEVELS = (pa, d, rs)
   \<Longrightarrow> pa = Some 0x80002ABC \<and> rs = [0x80001000]"
  by (simp add: riscv_mmu_translate_rv64_def hart_sv39_def ram0_def hart0_def cfg_u8_bits
    bit_off_u8 walk_eval write_uint64_le_def mask_numeral split: if_splits)

lemma s2_eval_fixed:
  "riscv_mmu_translate_sv32 cfg_u8 (hart_s2 0x20080001) 0x00403ABC MMU_WRITE = (pa, d, rs)
   \<Longrightarrow> pa = Some 0x00801ABC \<and> rs = [0x80100004, 0x8020000C]"
  by (simp add: s2_eval split: if_splits)

theorem walk_sets_only_AD_witness:
  "MMU_WRITE \<in> {MMU_READ, MMU_WRITE, MMU_EXEC}
   \<and> fst (riscv_mmu_translate_sv32 cfg_u8 (hart_s2 0x20080001) 0x00403ABC MMU_WRITE) = Some 0x00801ABC
   \<and> fst (snd (riscv_mmu_translate_sv32 cfg_u8 (hart_s2 0x20080001) 0x00403ABC MMU_WRITE))
       = (mem_data (mem (hart_s2 0x20080001)))
           (0x20000C := mem_data (mem (hart_s2 0x20080001)) 0x20000C OR 0xC0)
   \<and> MMU_READ \<in> {MMU_READ, MMU_WRITE, MMU_EXEC}
   \<and> fst (riscv_mmu_translate_rv64 cfg_u8 hart_sv39 0x2ABC MMU_READ SV39_LEVELS) = Some 0x80002ABC
   \<and> fst (snd (riscv_mmu_translate_rv64 cfg_u8 hart_sv39 0x2ABC MMU_READ SV39_LEVELS))
       = (mem_data (mem hart_sv39))(0x1000 := mem_data (mem hart_sv39) 0x1000 OR 0x40)"
proof -
  have w: "MMU_WRITE \<in> {MMU_READ, MMU_WRITE, MMU_EXEC}"
    and r: "MMU_READ \<in> {MMU_READ, MMU_WRITE, MMU_EXEC}" by simp_all
  obtain pa d rs where
    t: "riscv_mmu_translate_sv32 cfg_u8 (hart_s2 0x20080001) 0x00403ABC MMU_WRITE = (pa, d, rs)"
    by (cases "riscv_mmu_translate_sv32 cfg_u8 (hart_s2 0x20080001) 0x00403ABC MMU_WRITE")
  from s2_eval_fixed [OF t] have pa: "pa = Some 0x00801ABC" and rs: "rs = [0x80100004, 0x8020000C]"
    by simp_all
  have d: "d = (mem_data (mem (hart_s2 0x20080001)))
           (0x20000C := mem_data (mem (hart_s2 0x20080001)) 0x20000C OR 0xC0)"
    using walk_sets_only_AD [OF w, of cfg_u8 "hart_s2 0x20080001" "0x00403ABC" "0x00801ABC" d rs] t pa rs
    by (simp add: riscv_phys_translate_def hart_s2_def ram_s2_def)
  obtain pa' d' rs' where
    t': "riscv_mmu_translate_rv64 cfg_u8 hart_sv39 0x2ABC MMU_READ SV39_LEVELS = (pa', d', rs')"
    by (cases "riscv_mmu_translate_rv64 cfg_u8 hart_sv39 0x2ABC MMU_READ SV39_LEVELS")
  from sv39_eval [OF t'] have pa': "pa' = Some 0x80002ABC" and rs': "rs' = [0x80001000]"
    by simp_all
  have d': "d' = (mem_data (mem hart_sv39))(0x1000 := mem_data (mem hart_sv39) 0x1000 OR 0x40)"
    using walk_sets_only_AD [OF r, of cfg_u8 hart_sv39 "0x2ABC" "0x80002ABC" d' rs' SV39_LEVELS] t' pa' rs'
    by (simp add: riscv_phys_translate_def hart_sv39_def ram0_def MMU_READ_def MMU_WRITE_def)
  show ?thesis using w r t pa d t' pa' d' by simp
qed

section \<open>Effective privilege and access\<close>

lemma bit_2: "bit (2 :: 'a :: semiring_bit_operations) n \<longleftrightarrow> possible_bit TYPE('a) n \<and> n = 1"
proof -
  have "bit ((2 :: 'a) ^ 1) n \<longleftrightarrow> possible_bit TYPE('a) n \<and> n = 1"
    by (rule bit_exp_iff)
  then show ?thesis by simp
qed

lemma and_2_zero:
  "(w :: 'a :: len word) AND 2 = 0 \<longleftrightarrow> \<not> (bit w 1 \<and> 1 < LENGTH('a))"
proof
  assume "w AND 2 = 0"
  then have "\<not> bit (w AND 2) 1" by simp
  then show "\<not> (bit w 1 \<and> 1 < LENGTH('a))" by (simp add: bit_and_iff bit_2)
next
  assume "\<not> (bit w 1 \<and> 1 < LENGTH('a))"
  then show "w AND 2 = 0"
    by (intro bit_word_eqI) (auto simp: bit_and_iff bit_2)
qed

lemma r_bit32:
  "(ucast (read_uint32_le d p) :: 64 word) AND ucast MMU_READ = 0 \<longleftrightarrow> d p AND MMU_READ = 0"
  by (simp add: MMU_READ_def and_2_zero read_uint32_le_def bit_simps)

lemma r_bit64:
  "read_uint64_le d p AND ucast MMU_READ = 0 \<longleftrightarrow> d p AND MMU_READ = 0"
  by (simp add: MMU_READ_def and_2_zero read_uint64_le_def bit_simps)

lemma sv32_walk_xonly:
  "sv32_walk cfg m vaddr MMU_EXEC n pt bo rs = (Some pa, d, rs') \<Longrightarrow>
   riscv_phys_translate m (last rs') = Some leaf \<Longrightarrow> mem_data m leaf AND MMU_READ = 0 \<Longrightarrow>
   sv32_walk cfg m vaddr MMU_READ n pt bo rs = (None, mem_data m, rs')"
proof (induction n arbitrary: pt bo rs)
  case 0
  then show ?case by simp
next
  case (Suc n)
  show ?case
  proof (cases "riscv_phys_translate m (pt + push_bit 2 (drop_bit bo vaddr AND SV32_VPN_MASK))")
    case None
    then show ?thesis using Suc.prems by (simp add: Let_def)
  next
    case (Some pte_addr)
    then show ?thesis using Suc.prems
      by (auto simp: Let_def r_bit32 split: if_splits intro: Suc.IH)
  qed
qed

lemma rv64_walk_xonly:
  "rv64_walk cfg m vaddr MMU_EXEC n pt bo rs = (Some pa, d, rs') \<Longrightarrow>
   riscv_phys_translate m (last rs') = Some leaf \<Longrightarrow> mem_data m leaf AND MMU_READ = 0 \<Longrightarrow>
   rv64_walk cfg m vaddr MMU_READ n pt bo rs = (None, mem_data m, rs')"
proof (induction n arbitrary: pt bo rs)
  case 0
  then show ?case by simp
next
  case (Suc n)
  show ?case
  proof (cases "riscv_phys_translate m (pt + push_bit 3 (drop_bit bo vaddr AND SV64_VPN_MASK))")
    case None
    then show ?thesis using Suc.prems by (simp add: Let_def)
  next
    case (Some pte_addr)
    then show ?thesis using Suc.prems
      by (auto simp: Let_def r_bit64 split: if_splits intro: Suc.IH)
  qed
qed

lemma translate_xonly_read_fails:
  assumes x: "riscv_mmu_translate cfg vm vaddr MMU_EXEC = (Some pa, d, rs)"
    and rs: "rs \<noteq> []"
    and leaf: "riscv_phys_translate (mem vm) (last rs) = Some leaf"
    and r0: "mem_data (mem vm) leaf AND MMU_READ = 0"
    and st: "csr_status vm AND CSR_STATUS_MPRV_MASK = 0" "csr_status vm AND CSR_STATUS_MXR_MASK = 0"
  shows "riscv_mmu_translate cfg vm vaddr MMU_READ = (None, mem_data (mem vm), rs)"
  using x rs st
    sv32_walk_xonly [OF _ leaf r0, of cfg vaddr]
    rv64_walk_xonly [OF _ leaf r0, of cfg vaddr]
  by (auto simp: riscv_mmu_translate_def Let_def riscv_mmu_translate_sv32_def
      riscv_mmu_translate_rv64_def mmu_ops_distinct sign_extend_def split: if_splits)

lemma status_mask_bits:
  "bit CSR_STATUS_MPRV_MASK n \<longleftrightarrow> n = 17"
  "bit CSR_STATUS_MXR_MASK n \<longleftrightarrow> n = 19"
  unfolding CSR_STATUS_MPRV_MASK_def CSR_STATUS_MXR_MASK_def
  by (simp_all only: bit_push_bit_iff bit_1_iff possible_bit_word) auto

lemma status_masks:
  "(s AND NOT CSR_STATUS_MPRV_MASK) AND CSR_STATUS_MPRV_MASK = 0"
  "(s AND NOT CSR_STATUS_MPRV_MASK) AND CSR_STATUS_MXR_MASK = s AND CSR_STATUS_MXR_MASK"
  "(s AND NOT (CSR_STATUS_MPRV_MASK OR CSR_STATUS_MXR_MASK)) AND CSR_STATUS_MPRV_MASK = 0"
  "(s AND NOT (CSR_STATUS_MPRV_MASK OR CSR_STATUS_MXR_MASK)) AND CSR_STATUS_MXR_MASK = 0"
  "(s AND NOT CSR_STATUS_MPRV_MASK) AND NOT (CSR_STATUS_MPRV_MASK OR CSR_STATUS_MXR_MASK)
     = s AND NOT (CSR_STATUS_MPRV_MASK OR CSR_STATUS_MXR_MASK)"
  "(s AND NOT CSR_STATUS_MPRV_MASK AND NOT CSR_STATUS_MXR_MASK) AND CSR_STATUS_MPRV_MASK = 0"
  "(s AND NOT CSR_STATUS_MPRV_MASK AND NOT CSR_STATUS_MXR_MASK) AND CSR_STATUS_MXR_MASK = 0"
  by (rule bit_word_eqI; auto simp: bit_and_iff bit_not_iff bit_or_iff status_mask_bits)+

lemma and_not_twice:
  "(s AND NOT p) AND NOT p AND NOT x = s AND NOT p AND NOT (x :: 'a :: len word)"
  by (rule bit_word_eqI) (auto simp: bit_and_iff bit_not_iff)

lemma walkers_ignore_csr:
  "riscv_mmu_translate_sv32 cfg (vm\<lparr>priv_mode := p, csr_status := s\<rparr>) = riscv_mmu_translate_sv32 cfg vm"
  "riscv_mmu_translate_rv64 cfg (vm\<lparr>priv_mode := p, csr_status := s\<rparr>) = riscv_mmu_translate_rv64 cfg vm"
  by (simp_all add: fun_eq_iff riscv_mmu_translate_sv32_def riscv_mmu_translate_rv64_def Let_def)

lemma translate_plain:
  "riscv_mmu_translate cfg vm vaddr access
     = riscv_mmu_translate cfg
         (vm\<lparr>priv_mode := (if csr_status vm AND CSR_STATUS_MPRV_MASK \<noteq> 0 \<and> access \<noteq> MMU_EXEC
                            then ucast (CSR_STATUS_MPP (csr_status vm)) else priv_mode vm),
             csr_status := csr_status vm AND NOT (CSR_STATUS_MPRV_MASK OR CSR_STATUS_MXR_MASK)\<rparr>)
         vaddr
         (if csr_status vm AND CSR_STATUS_MXR_MASK \<noteq> 0 \<and> access = MMU_READ then MMU_EXEC else access)"
  by (simp add: riscv_mmu_translate_def Let_def status_masks walkers_ignore_csr mmu_ops_distinct)

lemma translate_at_plain_hart:
  fixes vm :: rvvm_hart
  defines "eff_priv \<equiv> (if csr_status vm AND CSR_STATUS_MPRV_MASK \<noteq> 0
                          then ucast (CSR_STATUS_MPP (csr_status vm)) else priv_mode vm)"
  defines "plain \<equiv> vm\<lparr>priv_mode := eff_priv,
      csr_status := csr_status vm AND NOT (CSR_STATUS_MPRV_MASK OR CSR_STATUS_MXR_MASK)\<rparr>"
  shows "(csr_status vm AND CSR_STATUS_MPRV_MASK \<noteq> 0 \<and> access \<noteq> MMU_EXEC \<longrightarrow>
            riscv_mmu_translate cfg vm vaddr access
              = riscv_mmu_translate cfg
                  (vm\<lparr>priv_mode := ucast (CSR_STATUS_MPP (csr_status vm)),
                      csr_status := csr_status vm AND NOT CSR_STATUS_MPRV_MASK\<rparr>) vaddr access)
       \<and> (csr_status vm AND CSR_STATUS_MXR_MASK \<noteq> 0 \<longrightarrow>
            riscv_mmu_translate cfg vm vaddr MMU_READ = riscv_mmu_translate cfg plain vaddr MMU_EXEC)
       \<and> (riscv_mmu_translate cfg plain vaddr MMU_EXEC = (Some pa, d, rs) \<and> rs \<noteq> []
            \<and> riscv_phys_translate (mem vm) (last rs) = Some leaf
            \<and> mem_data (mem vm) leaf AND MMU_READ = 0 \<longrightarrow>
            (fst (riscv_mmu_translate cfg vm vaddr MMU_READ) \<noteq> None
               \<longleftrightarrow> csr_status vm AND CSR_STATUS_MXR_MASK \<noteq> 0))"
proof (intro conjI impI)
  assume a: "csr_status vm AND CSR_STATUS_MPRV_MASK \<noteq> 0 \<and> access \<noteq> MMU_EXEC"
  show "riscv_mmu_translate cfg vm vaddr access
      = riscv_mmu_translate cfg
          (vm\<lparr>priv_mode := ucast (CSR_STATUS_MPP (csr_status vm)),
              csr_status := csr_status vm AND NOT CSR_STATUS_MPRV_MASK\<rparr>) vaddr access"
    using a
    by (subst translate_plain, subst (2) translate_plain) (simp add: status_masks and_not_twice)
next
  assume "csr_status vm AND CSR_STATUS_MXR_MASK \<noteq> 0"
  then show "riscv_mmu_translate cfg vm vaddr MMU_READ = riscv_mmu_translate cfg plain vaddr MMU_EXEC"
    by (subst translate_plain) (simp add: plain_def eff_priv_def mmu_ops_distinct)
next
  assume a: "riscv_mmu_translate cfg plain vaddr MMU_EXEC = (Some pa, d, rs) \<and> rs \<noteq> []
            \<and> riscv_phys_translate (mem vm) (last rs) = Some leaf
            \<and> mem_data (mem vm) leaf AND MMU_READ = 0"
  show "fst (riscv_mmu_translate cfg vm vaddr MMU_READ) \<noteq> None
               \<longleftrightarrow> csr_status vm AND CSR_STATUS_MXR_MASK \<noteq> 0"
  proof (cases "csr_status vm AND CSR_STATUS_MXR_MASK \<noteq> 0")
    case True
    then have "riscv_mmu_translate cfg vm vaddr MMU_READ = riscv_mmu_translate cfg plain vaddr MMU_EXEC"
      by (subst translate_plain) (simp add: plain_def eff_priv_def mmu_ops_distinct)
    then show ?thesis using a True by simp
  next
    case False
    then have "riscv_mmu_translate cfg vm vaddr MMU_READ = riscv_mmu_translate cfg plain vaddr MMU_READ"
      by (subst translate_plain) (simp add: plain_def eff_priv_def mmu_ops_distinct)
    moreover have "riscv_mmu_translate cfg plain vaddr MMU_READ = (None, mem_data (mem plain), rs)"
      using a by (intro translate_xonly_read_fails [where leaf = leaf and pa = pa and d = d])
        (simp_all add: plain_def status_masks)
    ultimately show ?thesis using False by simp
  qed
qed


lemma mode_consts_distinct:
  "CSR_SATP_MODE_SV32 \<noteq> CSR_SATP_MODE_PHYS" "CSR_SATP_MODE_SV39 \<noteq> CSR_SATP_MODE_PHYS"
  "CSR_SATP_MODE_SV48 \<noteq> CSR_SATP_MODE_PHYS" "CSR_SATP_MODE_SV57 \<noteq> CSR_SATP_MODE_PHYS"
  "CSR_SATP_MODE_SV39 \<noteq> CSR_SATP_MODE_SV32" "CSR_SATP_MODE_SV48 \<noteq> CSR_SATP_MODE_SV32"
  "CSR_SATP_MODE_SV57 \<noteq> CSR_SATP_MODE_SV32" "CSR_SATP_MODE_SV48 \<noteq> CSR_SATP_MODE_SV39"
  "CSR_SATP_MODE_SV57 \<noteq> CSR_SATP_MODE_SV39" "CSR_SATP_MODE_SV57 \<noteq> CSR_SATP_MODE_SV48"
  by (simp_all add: CSR_SATP_MODE_PHYS_def CSR_SATP_MODE_SV32_def CSR_SATP_MODE_SV39_def
      CSR_SATP_MODE_SV48_def CSR_SATP_MODE_SV57_def)

lemma translate_bypass:
  assumes "\<not> (if csr_status vm AND CSR_STATUS_MPRV_MASK \<noteq> 0 \<and> access \<noteq> MMU_EXEC
              then ucast (CSR_STATUS_MPP (csr_status vm)) else priv_mode vm) \<le> PRIVILEGE_SUPERVISOR"
  shows "riscv_mmu_translate cfg vm vaddr access = (Some vaddr, mem_data (mem vm), [])"
  using assms by (simp add: riscv_mmu_translate_def Let_def split: if_splits)

lemma translate_walks:
  assumes "(if csr_status vm AND CSR_STATUS_MPRV_MASK \<noteq> 0 \<and> access \<noteq> MMU_EXEC
            then ucast (CSR_STATUS_MPP (csr_status vm)) else priv_mode vm) \<le> PRIVILEGE_SUPERVISOR"
  shows "mmu_mode vm = CSR_SATP_MODE_PHYS \<Longrightarrow>
           riscv_mmu_translate cfg vm vaddr access = (Some vaddr, mem_data (mem vm), [])"
    and "mmu_mode vm = CSR_SATP_MODE_SV32 \<Longrightarrow>
           riscv_mmu_translate cfg vm vaddr access
             = riscv_mmu_translate_sv32 cfg vm vaddr
                 (if csr_status vm AND CSR_STATUS_MXR_MASK \<noteq> 0 \<and> access = MMU_READ
                  then MMU_EXEC else access)"
    and "(mmu_mode vm, sv_levels) \<in> {(CSR_SATP_MODE_SV39, SV39_LEVELS),
             (CSR_SATP_MODE_SV48, SV48_LEVELS), (CSR_SATP_MODE_SV57, SV57_LEVELS)} \<Longrightarrow>
           riscv_mmu_translate cfg vm vaddr access
             = riscv_mmu_translate_rv64 cfg vm vaddr
                 (if csr_status vm AND CSR_STATUS_MXR_MASK \<noteq> 0 \<and> access = MMU_READ
                  then MMU_EXEC else access) sv_levels"
  using assms
  by (auto simp: riscv_mmu_translate_def Let_def mode_consts_distinct split: if_splits)

lemma translate_xonly_sv32:
  assumes p: "(if csr_status vm AND CSR_STATUS_MPRV_MASK \<noteq> 0
               then ucast (CSR_STATUS_MPP (csr_status vm)) else priv_mode vm) \<le> PRIVILEGE_SUPERVISOR"
    and m: "mmu_mode vm = CSR_SATP_MODE_SV32"
    and x: "riscv_mmu_translate_sv32 cfg vm vaddr MMU_EXEC = (Some pa, d, rs)"
    and leaf: "riscv_phys_translate (mem vm) (last rs) = Some leaf"
    and r0: "mem_data (mem vm) leaf AND MMU_READ = 0"
  shows "riscv_mmu_translate cfg vm vaddr MMU_READ
           = (if csr_status vm AND CSR_STATUS_MXR_MASK \<noteq> 0 then (Some pa, d, rs)
              else (None, mem_data (mem vm), rs))"
proof -
  have p': "(if csr_status vm AND CSR_STATUS_MPRV_MASK \<noteq> 0 \<and> MMU_READ \<noteq> MMU_EXEC
            then ucast (CSR_STATUS_MPP (csr_status vm)) else priv_mode vm) \<le> PRIVILEGE_SUPERVISOR"
    using p by (simp add: mmu_ops_distinct)
  have "riscv_mmu_translate_sv32 cfg vm vaddr MMU_READ = (None, mem_data (mem vm), rs)"
    using sv32_walk_xonly [OF x [unfolded riscv_mmu_translate_sv32_def] leaf r0]
    by (simp add: riscv_mmu_translate_sv32_def)
  then show ?thesis
    using translate_walks(2) [OF p' m, of cfg vaddr] x by simp
qed

lemma translate_xonly_rv64:
  assumes p: "(if csr_status vm AND CSR_STATUS_MPRV_MASK \<noteq> 0
               then ucast (CSR_STATUS_MPP (csr_status vm)) else priv_mode vm) \<le> PRIVILEGE_SUPERVISOR"
    and m: "(mmu_mode vm, sv_levels) \<in> {(CSR_SATP_MODE_SV39, SV39_LEVELS),
             (CSR_SATP_MODE_SV48, SV48_LEVELS), (CSR_SATP_MODE_SV57, SV57_LEVELS)}"
    and x: "riscv_mmu_translate_rv64 cfg vm vaddr MMU_EXEC sv_levels = (Some pa, d, rs)"
    and leaf: "riscv_phys_translate (mem vm) (last rs) = Some leaf"
    and r0: "mem_data (mem vm) leaf AND MMU_READ = 0"
  shows "riscv_mmu_translate cfg vm vaddr MMU_READ
           = (if csr_status vm AND CSR_STATUS_MXR_MASK \<noteq> 0 then (Some pa, d, rs)
              else (None, mem_data (mem vm), rs))"
proof -
  have p': "(if csr_status vm AND CSR_STATUS_MPRV_MASK \<noteq> 0 \<and> MMU_READ \<noteq> MMU_EXEC
            then ucast (CSR_STATUS_MPP (csr_status vm)) else priv_mode vm) \<le> PRIVILEGE_SUPERVISOR"
    using p by (simp add: mmu_ops_distinct)
  have "riscv_mmu_translate_rv64 cfg vm vaddr MMU_READ sv_levels = (None, mem_data (mem vm), rs)"
    using x rv64_walk_xonly [OF _ leaf r0, of cfg vaddr]
    by (auto simp: riscv_mmu_translate_rv64_def Let_def split: if_splits)
  then show ?thesis
    using translate_walks(3) [OF p' m, of cfg vaddr] x by simp
qed

text \<open>
  Claim C6. The effective privilege of a translation is MPP (bits 11 and 12
  of \<open>status\<close>) when MPRV is set and the access is not execute, and the
  current privilege otherwise; the effective access is execute when MXR is
  set and the access is read, and the access otherwise. (1) Above S the
  translation is the identity, with RAM untouched and no PTE loaded: under
  MPRV with MPP = M also for a hart in S or U mode. (2) At most S it is the
  identity in bare mode and otherwise the walk of the mode's walker with the
  effective access: under MPRV with MPP at most S also for a hart in M mode,
  and under MXR a read is checked against X. (3) Where the walk for execute
  succeeds at a leaf PTE whose R bit is clear (a mapped page with X = 1 and
  R = 0), the translation for read is that walk's result if MXR is set and
  fails if it is not. (4) In terms of the hart alone: with MPRV set and an
  access other than execute, a translation is the translation of the hart
  running at privilege MPP with MPRV clear; with MXR set, a translation for
  read is the translation for execute of the hart running at the effective
  privilege with MPRV and MXR clear; and where that translation succeeds at
  a leaf with R clear, the translation for read succeeds if and only if MXR
  is set.
\<close>

theorem mprv_mxr_effective:
  fixes vm :: rvvm_hart and access :: uint8_t
  defines "eff_priv \<equiv> (if csr_status vm AND CSR_STATUS_MPRV_MASK \<noteq> 0 \<and> access \<noteq> MMU_EXEC
                          then ucast (CSR_STATUS_MPP (csr_status vm)) else priv_mode vm)"
  defines "eff_access \<equiv> (if csr_status vm AND CSR_STATUS_MXR_MASK \<noteq> 0 \<and> access = MMU_READ
                            then MMU_EXEC else access)"
  defines "read_priv \<equiv> (if csr_status vm AND CSR_STATUS_MPRV_MASK \<noteq> 0
                           then ucast (CSR_STATUS_MPP (csr_status vm)) else priv_mode vm)"
  defines "plain \<equiv> vm\<lparr>priv_mode := read_priv,
      csr_status := csr_status vm AND NOT (CSR_STATUS_MPRV_MASK OR CSR_STATUS_MXR_MASK)\<rparr>"
  shows "CSR_STATUS_MPP (csr_status vm) = drop_bit 11 (csr_status vm) AND 3
       \<and> (\<not> eff_priv \<le> PRIVILEGE_SUPERVISOR \<longrightarrow>
            riscv_mmu_translate cfg vm vaddr access = (Some vaddr, mem_data (mem vm), []))
       \<and> (eff_priv \<le> PRIVILEGE_SUPERVISOR \<and> mmu_mode vm = CSR_SATP_MODE_PHYS \<longrightarrow>
            riscv_mmu_translate cfg vm vaddr access = (Some vaddr, mem_data (mem vm), []))
       \<and> (eff_priv \<le> PRIVILEGE_SUPERVISOR \<and> mmu_mode vm = CSR_SATP_MODE_SV32 \<longrightarrow>
            riscv_mmu_translate cfg vm vaddr access
              = riscv_mmu_translate_sv32 cfg vm vaddr eff_access)
       \<and> (eff_priv \<le> PRIVILEGE_SUPERVISOR
            \<and> (mmu_mode vm, sv_levels) \<in> {(CSR_SATP_MODE_SV39, SV39_LEVELS),
                  (CSR_SATP_MODE_SV48, SV48_LEVELS), (CSR_SATP_MODE_SV57, SV57_LEVELS)} \<longrightarrow>
            riscv_mmu_translate cfg vm vaddr access
              = riscv_mmu_translate_rv64 cfg vm vaddr eff_access sv_levels)
       \<and> (read_priv \<le> PRIVILEGE_SUPERVISOR \<and> mmu_mode vm = CSR_SATP_MODE_SV32
            \<and> riscv_mmu_translate_sv32 cfg vm vaddr MMU_EXEC = (Some pa, d, rs)
            \<and> riscv_phys_translate (mem vm) (last rs) = Some leaf
            \<and> mem_data (mem vm) leaf AND MMU_READ = 0 \<longrightarrow>
            riscv_mmu_translate cfg vm vaddr MMU_READ
              = (if csr_status vm AND CSR_STATUS_MXR_MASK \<noteq> 0 then (Some pa, d, rs)
                 else (None, mem_data (mem vm), rs)))
       \<and> (read_priv \<le> PRIVILEGE_SUPERVISOR
            \<and> (mmu_mode vm, sv_levels) \<in> {(CSR_SATP_MODE_SV39, SV39_LEVELS),
                  (CSR_SATP_MODE_SV48, SV48_LEVELS), (CSR_SATP_MODE_SV57, SV57_LEVELS)}
            \<and> riscv_mmu_translate_rv64 cfg vm vaddr MMU_EXEC sv_levels = (Some pa, d, rs)
            \<and> riscv_phys_translate (mem vm) (last rs) = Some leaf
            \<and> mem_data (mem vm) leaf AND MMU_READ = 0 \<longrightarrow>
            riscv_mmu_translate cfg vm vaddr MMU_READ
              = (if csr_status vm AND CSR_STATUS_MXR_MASK \<noteq> 0 then (Some pa, d, rs)
                 else (None, mem_data (mem vm), rs)))
       \<and> (csr_status vm AND CSR_STATUS_MPRV_MASK \<noteq> 0 \<and> access \<noteq> MMU_EXEC \<longrightarrow>
            riscv_mmu_translate cfg vm vaddr access
              = riscv_mmu_translate cfg
                  (vm\<lparr>priv_mode := ucast (CSR_STATUS_MPP (csr_status vm)),
                      csr_status := csr_status vm AND NOT CSR_STATUS_MPRV_MASK\<rparr>) vaddr access)
       \<and> (csr_status vm AND CSR_STATUS_MXR_MASK \<noteq> 0 \<longrightarrow>
            riscv_mmu_translate cfg vm vaddr MMU_READ = riscv_mmu_translate cfg plain vaddr MMU_EXEC)
       \<and> (riscv_mmu_translate cfg plain vaddr MMU_EXEC = (Some pa2, d2, rs2) \<and> rs2 \<noteq> []
            \<and> riscv_phys_translate (mem vm) (last rs2) = Some leaf2
            \<and> mem_data (mem vm) leaf2 AND MMU_READ = 0 \<longrightarrow>
            (fst (riscv_mmu_translate cfg vm vaddr MMU_READ) \<noteq> None
               \<longleftrightarrow> csr_status vm AND CSR_STATUS_MXR_MASK \<noteq> 0))"
proof -
  have mpp: "CSR_STATUS_MPP (csr_status vm) = drop_bit 11 (csr_status vm) AND 3"
    by (simp add: CSR_STATUS_MPP_def bit_cut_def bit_mask_def mask_numeral)
  show ?thesis
    unfolding eff_priv_def eff_access_def plain_def read_priv_def
    apply (intro conjI)
             apply (rule mpp)
            apply (simp add: translate_bypass)
           apply (simp add: translate_walks(1))
          apply (simp add: translate_walks(2))
         apply (intro impI, elim conjE, rule translate_walks(3); assumption)
        apply (intro impI, elim conjE, rule translate_xonly_sv32; assumption)
       apply (intro impI, elim conjE, rule translate_xonly_rv64; assumption)
      apply (rule translate_at_plain_hart [THEN conjunct1])
     apply (rule translate_at_plain_hart [THEN conjunct2, THEN conjunct1])
    apply (rule translate_at_plain_hart [THEN conjunct2, THEN conjunct2])
    done
qed

lemmas xonly_eval = riscv_mmu_translate_def riscv_mmu_translate_sv32_def hart_xonly_def ram0_def
  hart0_def cfg_u8_bits walk_eval write_uint32_le_def atomic_cas_uint32_le_def mask_numeral
  CSR_STATUS_MPRV_MASK_def CSR_STATUS_MXR_MASK_def CSR_STATUS_MPP_def bit_cut_def
  PRIVILEGE_SUPERVISOR_def CSR_SATP_MODE_PHYS_def CSR_SATP_MODE_SV32_def

lemma xonly_status:
  "csr_status hart_xonly AND CSR_STATUS_MPRV_MASK \<noteq> 0"
  "csr_status hart_xonly AND CSR_STATUS_MXR_MASK \<noteq> 0"
  "ucast (CSR_STATUS_MPP (csr_status hart_xonly)) = (1 :: 8 word)"
  "csr_status hart_xonly AND NOT CSR_STATUS_MPRV_MASK = 0x80800"
  "csr_status hart_xonly AND NOT (CSR_STATUS_MPRV_MASK OR CSR_STATUS_MXR_MASK) = 0x800"
  "mem_data (mem hart_xonly) 0x1000 AND MMU_READ = 0"
  "riscv_phys_translate (mem hart_xonly) 0x80001000 = Some 0x1000"
  "csr_status hart_xonly AND NOT CSR_STATUS_MPRV_MASK AND NOT CSR_STATUS_MXR_MASK = 0x800"
  by (simp_all add: xonly_eval)

lemma xonly_exec_eval:
  "riscv_mmu_translate cfg_u8 (hart_xonly\<lparr>priv_mode := 1, csr_status := 0x800\<rparr>) 0x2ABC MMU_EXEC
     = (pa, d, rs) \<Longrightarrow> pa = Some 0x80002ABC \<and> rs = [0x80001000]"
  by (simp add: xonly_eval split: if_splits)

lemma bypass_status:
  "(0x21800 :: 64 word) AND CSR_STATUS_MPRV_MASK \<noteq> 0"
  "(ucast (CSR_STATUS_MPP 0x21800) :: 8 word) = 3"
  "(0x20800 :: 64 word) AND CSR_STATUS_MPRV_MASK \<noteq> 0"
  "(0x20800 :: 64 word) AND CSR_STATUS_MXR_MASK = 0"
  "(ucast (CSR_STATUS_MPP 0x20800) :: 8 word) = 1"
  "(0x80000 :: 64 word) AND CSR_STATUS_MPRV_MASK = 0"
  "(0x80000 :: 64 word) AND CSR_STATUS_MXR_MASK \<noteq> 0"
  "(0xA0800 :: 64 word) AND CSR_STATUS_MPRV_MASK \<noteq> 0"
  "(0xA0800 :: 64 word) AND CSR_STATUS_MXR_MASK \<noteq> 0"
  "(ucast (CSR_STATUS_MPP 0xA0800) :: 8 word) = 1"
  by (simp_all add: CSR_STATUS_MPRV_MASK_def CSR_STATUS_MXR_MASK_def CSR_STATUS_MPP_def bit_cut_def
      bit_mask_def mask_numeral)

lemma xonly_sv32_eval:
  "riscv_mmu_translate_sv32 cfg_u8 (hart_xonly\<lparr>csr_status := st\<rparr>) 0x2ABC MMU_EXEC = (pa, d, rs)
     \<Longrightarrow> pa = Some 0x80002ABC \<and> rs = [0x80001000]"
  by (simp add: xonly_eval split: if_splits)

lemma xonly_sv39_eval:
  "riscv_mmu_translate_rv64 cfg_u8 hart_sv39_xonly 0x2ABC MMU_EXEC SV39_LEVELS = (pa, d, rs)
     \<Longrightarrow> pa = Some 0x80002ABC \<and> rs = [0x80001000]"
  by (simp add: riscv_mmu_translate_rv64_def hart_sv39_xonly_def ram0_def hart0_def cfg_u8_bits
      bit_off_u8 walk_eval write_uint64_le_def mask_numeral split: if_splits)

lemma xonly_sv39_facts:
  "priv_mode hart_sv39_xonly = 1" "csr_status hart_sv39_xonly = 0x80000"
  "mmu_mode hart_sv39_xonly = CSR_SATP_MODE_SV39"
  "riscv_phys_translate (mem hart_sv39_xonly) 0x80001000 = Some 0x1000"
  "mem_data (mem hart_sv39_xonly) 0x1000 AND MMU_READ = 0"
  by (simp_all add: hart_sv39_xonly_def hart0_def ram0_def riscv_phys_translate_def
      write_uint64_le_def MMU_READ_def)

lemma xonly_facts:
  "priv_mode (hart_xonly\<lparr>csr_status := st\<rparr>) = 3" "csr_status (hart_xonly\<lparr>csr_status := st\<rparr>) = st"
  "mmu_mode (hart_xonly\<lparr>csr_status := st\<rparr>) = CSR_SATP_MODE_SV32"
  "mem (hart_xonly\<lparr>csr_status := st\<rparr>) = mem hart_xonly"
  "priv_mode hart_xonly = 3" "csr_status hart_xonly = 0xA0800"
  "mmu_mode hart_xonly = CSR_SATP_MODE_SV32"
  "hart_xonly\<lparr>csr_status := 0xA0800\<rparr> = hart_xonly"
  by (simp_all add: hart_xonly_def hart0_def)

theorem mprv_mxr_effective_witness:
  "(0x21800 :: 64 word) AND CSR_STATUS_MPRV_MASK \<noteq> 0 \<and> MMU_READ \<noteq> MMU_EXEC
   \<and> \<not> (ucast (CSR_STATUS_MPP 0x21800) :: 8 word) \<le> PRIVILEGE_SUPERVISOR
   \<and> riscv_mmu_translate cfg_u8 (hart_xonly\<lparr>priv_mode := 1, csr_status := 0x21800\<rparr>) 0x2ABC MMU_READ
       = (Some 0x2ABC, mem_data (mem hart_xonly), [])
   \<and> riscv_mmu_translate cfg_u8 (hart0\<lparr>mmu_mode := CSR_SATP_MODE_PHYS\<rparr>) 0x2ABC MMU_READ
       = (Some 0x2ABC, mem_data (mem hart0), [])
   \<and> csr_status hart_xonly AND CSR_STATUS_MPRV_MASK \<noteq> 0
   \<and> csr_status hart_xonly AND CSR_STATUS_MXR_MASK \<noteq> 0
   \<and> (ucast (CSR_STATUS_MPP (csr_status hart_xonly)) :: 8 word) \<le> PRIVILEGE_SUPERVISOR
   \<and> priv_mode hart_xonly = 3
   \<and> riscv_mmu_translate cfg_u8 hart_xonly 0x2ABC MMU_READ
       = riscv_mmu_translate_sv32 cfg_u8 hart_xonly 0x2ABC MMU_EXEC
   \<and> riscv_mmu_translate cfg_u8 hart0 0x40000 MMU_READ
       = riscv_mmu_translate_rv64 cfg_u8 hart0 0x40000 MMU_READ SV39_LEVELS
   \<and> riscv_phys_translate (mem hart_xonly) 0x80001000 = Some 0x1000
   \<and> mem_data (mem hart_xonly) 0x1000 AND MMU_READ = 0
   \<and> fst (riscv_mmu_translate cfg_u8 hart_xonly 0x2ABC MMU_READ) = Some 0x80002ABC
   \<and> riscv_mmu_translate cfg_u8 (hart_xonly\<lparr>csr_status := 0x20800\<rparr>) 0x2ABC MMU_READ
       = (None, mem_data (mem hart_xonly), [0x80001000])
   \<and> fst (riscv_mmu_translate cfg_u8 hart_sv39_xonly 0x2ABC MMU_READ) = Some 0x80002ABC
   \<and> riscv_mmu_translate cfg_u8 hart_xonly 0x2ABC MMU_READ
       = riscv_mmu_translate cfg_u8 (hart_xonly\<lparr>priv_mode := 1, csr_status := 0x80800\<rparr>) 0x2ABC MMU_READ
   \<and> riscv_mmu_translate cfg_u8 hart_xonly 0x2ABC MMU_READ
       = riscv_mmu_translate cfg_u8 (hart_xonly\<lparr>priv_mode := 1, csr_status := 0x800\<rparr>) 0x2ABC MMU_EXEC
   \<and> fst (riscv_mmu_translate cfg_u8 (hart_xonly\<lparr>priv_mode := 1, csr_status := 0x800\<rparr>) 0x2ABC MMU_EXEC)
       = Some 0x80002ABC
   \<and> fst (riscv_mmu_translate cfg_u8 hart_xonly 0x2ABC MMU_READ) \<noteq> None"
proof -
  have sup: "\<not> (3 :: 8 word) \<le> PRIVILEGE_SUPERVISOR" "(1 :: 8 word) \<le> PRIVILEGE_SUPERVISOR"
    by (simp_all add: PRIVILEGE_SUPERVISOR_def word_le_nat_alt)
  have a1: "riscv_mmu_translate cfg_u8 (hart_xonly\<lparr>priv_mode := 1, csr_status := 0x21800\<rparr>) 0x2ABC MMU_READ
       = (Some 0x2ABC, mem_data (mem hart_xonly), [])"
    using mprv_mxr_effective [where vm = "hart_xonly\<lparr>priv_mode := 1, csr_status := 0x21800\<rparr>"
        and access = MMU_READ and cfg = cfg_u8 and vaddr = "0x2ABC", THEN conjunct2, THEN conjunct1]
    by (simp add: bypass_status sup mmu_ops_distinct)
  have a2: "riscv_mmu_translate cfg_u8 (hart0\<lparr>mmu_mode := CSR_SATP_MODE_PHYS\<rparr>) 0x2ABC MMU_READ
       = (Some 0x2ABC, mem_data (mem hart0), [])"
    using mprv_mxr_effective [where vm = "hart0\<lparr>mmu_mode := CSR_SATP_MODE_PHYS\<rparr>"
        and access = MMU_READ and cfg = cfg_u8 and vaddr = "0x2ABC",
        THEN conjunct2, THEN conjunct2, THEN conjunct1]
    by (simp add: hart0_def sup CSR_STATUS_MPRV_MASK_def)
  have a3: "riscv_mmu_translate cfg_u8 hart_xonly 0x2ABC MMU_READ
       = riscv_mmu_translate_sv32 cfg_u8 hart_xonly 0x2ABC MMU_EXEC"
    using mprv_mxr_effective [where vm = hart_xonly
        and access = MMU_READ and cfg = cfg_u8 and vaddr = "0x2ABC",
        THEN conjunct2, THEN conjunct2, THEN conjunct2, THEN conjunct1]
    by (simp add: xonly_status xonly_facts bypass_status sup mmu_ops_distinct)
  have a4: "riscv_mmu_translate cfg_u8 hart0 0x40000 MMU_READ
       = riscv_mmu_translate_rv64 cfg_u8 hart0 0x40000 MMU_READ SV39_LEVELS"
    using mprv_mxr_effective [where vm = hart0
        and access = MMU_READ and cfg = cfg_u8 and vaddr = "0x40000" and sv_levels = SV39_LEVELS,
        THEN conjunct2, THEN conjunct2, THEN conjunct2, THEN conjunct2, THEN conjunct1]
    by (simp add: hart0_def sup CSR_STATUS_MPRV_MASK_def CSR_STATUS_MXR_MASK_def)
  obtain pa d rs where
    x: "riscv_mmu_translate_sv32 cfg_u8 hart_xonly 0x2ABC MMU_EXEC = (pa, d, rs)"
    by (cases "riscv_mmu_translate_sv32 cfg_u8 hart_xonly 0x2ABC MMU_EXEC")
  from xonly_sv32_eval [of "0xA0800", unfolded xonly_facts, OF x]
  have pa: "pa = Some 0x80002ABC" and rs: "rs = [0x80001000]" by simp_all
  have a5: "fst (riscv_mmu_translate cfg_u8 hart_xonly 0x2ABC MMU_READ) = Some 0x80002ABC"
    using mprv_mxr_effective [where vm = hart_xonly
        and cfg = cfg_u8 and vaddr = "0x2ABC" and pa = "0x80002ABC" and d = d and rs = rs
        and leaf = "0x1000",
        THEN conjunct2, THEN conjunct2, THEN conjunct2, THEN conjunct2, THEN conjunct2,
        THEN conjunct1] x pa rs
    by (simp add: xonly_status xonly_facts bypass_status sup)
  obtain pb db rb where
    y: "riscv_mmu_translate_sv32 cfg_u8 (hart_xonly\<lparr>csr_status := 0x20800\<rparr>) 0x2ABC MMU_EXEC = (pb, db, rb)"
    by (cases "riscv_mmu_translate_sv32 cfg_u8 (hart_xonly\<lparr>csr_status := 0x20800\<rparr>) 0x2ABC MMU_EXEC")
  from xonly_sv32_eval [OF y] have pb: "pb = Some 0x80002ABC" and rb: "rb = [0x80001000]" by simp_all
  have a6: "riscv_mmu_translate cfg_u8 (hart_xonly\<lparr>csr_status := 0x20800\<rparr>) 0x2ABC MMU_READ
       = (None, mem_data (mem hart_xonly), [0x80001000])"
    using mprv_mxr_effective [where vm = "hart_xonly\<lparr>csr_status := 0x20800\<rparr>"
        and cfg = cfg_u8 and vaddr = "0x2ABC" and pa = "0x80002ABC" and d = db and rs = rb
        and leaf = "0x1000",
        THEN conjunct2, THEN conjunct2, THEN conjunct2, THEN conjunct2, THEN conjunct2,
        THEN conjunct1] y pb rb
    by (simp add: xonly_status xonly_facts bypass_status sup)
  obtain pc dc rc where
    z: "riscv_mmu_translate_rv64 cfg_u8 hart_sv39_xonly 0x2ABC MMU_EXEC SV39_LEVELS = (pc, dc, rc)"
    by (cases "riscv_mmu_translate_rv64 cfg_u8 hart_sv39_xonly 0x2ABC MMU_EXEC SV39_LEVELS")
  from xonly_sv39_eval [OF z] have pc: "pc = Some 0x80002ABC" and rc: "rc = [0x80001000]" by simp_all
  have a7: "fst (riscv_mmu_translate cfg_u8 hart_sv39_xonly 0x2ABC MMU_READ) = Some 0x80002ABC"
    using mprv_mxr_effective [where vm = hart_sv39_xonly
        and cfg = cfg_u8 and vaddr = "0x2ABC" and pa = "0x80002ABC" and d = dc and rs = rc
        and leaf = "0x1000" and sv_levels = SV39_LEVELS,
        THEN conjunct2, THEN conjunct2, THEN conjunct2, THEN conjunct2, THEN conjunct2,
        THEN conjunct2, THEN conjunct1] z pc rc
    by (simp add: xonly_sv39_facts bypass_status sup)
  obtain pa' d' rs' where
    t: "riscv_mmu_translate cfg_u8 (hart_xonly\<lparr>priv_mode := 1, csr_status := 0x800\<rparr>) 0x2ABC MMU_EXEC
          = (pa', d', rs')"
    by (cases "riscv_mmu_translate cfg_u8 (hart_xonly\<lparr>priv_mode := 1, csr_status := 0x800\<rparr>) 0x2ABC MMU_EXEC")
  from xonly_exec_eval [OF t] have pa': "pa' = Some 0x80002ABC" and rs': "rs' = [0x80001000]"
    by simp_all
  note rel = mprv_mxr_effective [where vm = hart_xonly and access = MMU_READ and cfg = cfg_u8
      and vaddr = "0x2ABC" and ?pa2.0 = "0x80002ABC" and ?d2.0 = d' and ?rs2.0 = rs' and ?leaf2.0 = "0x1000",
      THEN conjunct2, THEN conjunct2, THEN conjunct2, THEN conjunct2, THEN conjunct2,
      THEN conjunct2, THEN conjunct2]
  have c1: "riscv_mmu_translate cfg_u8 hart_xonly 0x2ABC MMU_READ
       = riscv_mmu_translate cfg_u8 (hart_xonly\<lparr>priv_mode := 1, csr_status := 0x80800\<rparr>) 0x2ABC MMU_READ"
    using rel [THEN conjunct1] by (simp add: xonly_status mmu_ops_distinct)
  have c2: "riscv_mmu_translate cfg_u8 hart_xonly 0x2ABC MMU_READ
       = riscv_mmu_translate cfg_u8 (hart_xonly\<lparr>priv_mode := 1, csr_status := 0x800\<rparr>) 0x2ABC MMU_EXEC"
    using rel [THEN conjunct2, THEN conjunct1] by (simp add: xonly_status mmu_ops_distinct)
  have c3: "fst (riscv_mmu_translate cfg_u8 hart_xonly 0x2ABC MMU_READ) \<noteq> None"
    using rel [THEN conjunct2, THEN conjunct2] t pa' rs' by (simp add: xonly_status mmu_ops_distinct)
  have c4: "fst (riscv_mmu_translate cfg_u8 (hart_xonly\<lparr>priv_mode := 1, csr_status := 0x800\<rparr>) 0x2ABC MMU_EXEC)
       = Some 0x80002ABC"
    using t pa' by simp
  have s1: "(ucast (CSR_STATUS_MPP (csr_status hart_xonly)) :: 8 word) \<le> PRIVILEGE_SUPERVISOR"
    by (simp add: xonly_status sup)
  have s2: "\<not> (ucast (CSR_STATUS_MPP 0x21800) :: 8 word) \<le> PRIVILEGE_SUPERVISOR"
    by (simp add: bypass_status sup)
  show ?thesis
    by (intro conjI a1 a2 a3 a4 a5 a6 a7 c1 c2 c3 c4 s1 s2 bypass_status(1) xonly_status(1,2,6,7)
        xonly_facts(5) mmu_ops_distinct(2))
qed

section \<open>Properties of the dispatcher\<close>

lemma mmu_op_in_page:
  "riscv_block_in_page addr sz \<Longrightarrow>
   riscv_mmu_op cfg vm addr dest sz access =
     (case riscv_mmu_translate cfg vm addr access of
        (Some paddr, data', reads) \<Rightarrow>
          (let vm = vm\<lparr>mem := (mem vm)\<lparr>mem_data := data'\<rparr>\<rparr> in
           case riscv_phys_translate (mem vm) paddr of
             Some ptr \<Rightarrow>
               (let vm = riscv_tlb_put cfg vm addr paddr access in
                if access = MMU_WRITE then
                  (True,
                   vm\<lparr>mem := (mem vm)\<lparr>mem_data :=
                         memcpy_to_ram (mem_data (mem vm)) ptr dest (unat sz)\<rparr>\<rparr>,
                   dest)
                else (True, vm, memcpy_from_ram (mem_data (mem vm)) ptr (unat sz)))
           | None \<Rightarrow> (False, riscv_trap vm (access_fault_cause access) addr, dest))
      | (None, data', reads) \<Rightarrow>
          (let vm = vm\<lparr>mem := (mem vm)\<lparr>mem_data := data'\<rparr>\<rparr> in
           (False, riscv_trap vm (page_fault_cause access) addr, dest)))"
  by (subst riscv_mmu_op.simps)
    (simp add: riscv_mmio_op_def Let_def split: prod.splits option.splits)

lemma ad_flags_cases: "(0x40 OR push_bit 5 (a AND MMU_WRITE) :: 8 word) \<in> {0x40, 0xC0}"
proof (cases "bit a 2")
  case True
  have "a AND MMU_WRITE = 4"
    unfolding MMU_WRITE_def using True by (intro bit_word_eqI) (auto simp: bit_and_iff bit_4)
  then show ?thesis by simp
next
  case False
  have "a AND MMU_WRITE = 0"
    unfolding MMU_WRITE_def using False by (intro bit_word_eqI) (auto simp: bit_and_iff bit_4)
  then show ?thesis by simp
qed

lemma sv32_effect: "walk_effect vm (riscv_mmu_translate_sv32 cfg vm vaddr a)"
  using sv32_walk_result [where cfg = cfg and m = "mem vm" and vaddr = vaddr and access = a
        and n = SV32_LEVELS and pt = "root_page_table vm"
        and bo = "to_bitcnt cfg (int SV32_VPN_BITS + int PAGE_SHIFT)" and rs = "[]"]
        ad_flags_cases [of a]
  by (auto simp: walk_effect_def riscv_mmu_translate_sv32_def split: prod.splits option.splits)

lemma rv64_effect: "walk_effect vm (riscv_mmu_translate_rv64 cfg vm vaddr a l)"
  using rv64_walk_result [where cfg = cfg and m = "mem vm" and vaddr = vaddr and access = a
        and n = "unat l" and pt = "root_page_table vm"
        and bo = "sv64_bit_off cfg l" and rs = "[]"]
        ad_flags_cases [of a]
  by (auto simp: walk_effect_def riscv_mmu_translate_rv64_def Let_def split: prod.splits option.splits)

lemma translate_effect: "walk_effect vm (riscv_mmu_translate cfg vm vaddr access)"
  using sv32_effect rv64_effect
  by (simp add: riscv_mmu_translate_def Let_def) (simp add: walk_effect_def)

lemma translate_data:
  assumes "riscv_mmu_translate cfg vm vaddr access = (pa, d, rs)"
  shows "(pa = None \<longrightarrow> d = mem_data (mem vm)) \<and>
   (d = mem_data (mem vm) \<or>
    (\<exists>leaf f. rs \<noteq> [] \<and> riscv_phys_translate (mem vm) (last rs) = Some leaf \<and> f \<in> {0x40, 0xC0}
       \<and> d = (mem_data (mem vm))(leaf := mem_data (mem vm) leaf OR f)))"
  using translate_effect [of vm cfg vaddr access] assms by (simp add: walk_effect_def)

lemma same_ram: "vm\<lparr>mem := (mem vm)\<lparr>mem_data := mem_data (mem vm)\<rparr>\<rparr> = vm"
  by simp

lemma tlb_put_fields:
  "mem (riscv_tlb_put cfg vm vaddr paddr op) = mem vm"
  "trap_log (riscv_tlb_put cfg vm vaddr paddr op) = trap_log vm"
  by (simp_all add: riscv_tlb_put_def Let_def split: option.splits)

text \<open>
  Claim C10. When an operation whose range lies within one page returns
  false, the caller's buffer and the TLB are as before, the RAM window is
  the same, and exactly one trap has been raised, with \<open>tval\<close> the
  address of the operation. The contents of RAM are as before, or else the
  translation had succeeded at a physical address outside RAM (the trap is
  the access fault) and RAM differs only in the first byte of the leaf PTE
  of that walk, where A, or A and D, have been set.
\<close>

theorem mmu_op_trap_leaves_state:
  assumes page: "riscv_block_in_page addr sz"
    and res: "riscv_mmu_op cfg vm addr dest sz access = (False, vm', dest')"
  shows "dest' = dest \<and> tlb vm' = tlb vm
    \<and> mem_begin (mem vm') = mem_begin (mem vm) \<and> mem_size (mem vm') = mem_size (mem vm)
    \<and> (\<exists>cause. trap_log vm' = trap_log vm @ [(cause, addr)])
    \<and> (mem_data (mem vm') = mem_data (mem vm)
        \<or> (\<exists>paddr d rs leaf f.
              riscv_mmu_translate cfg vm addr access = (Some paddr, d, rs)
              \<and> riscv_phys_translate (mem vm) paddr = None
              \<and> trap_log vm' = trap_log vm @ [(access_fault_cause access, addr)]
              \<and> rs \<noteq> [] \<and> riscv_phys_translate (mem vm) (last rs) = Some leaf
              \<and> f \<in> {0x40, 0xC0}
              \<and> mem_data (mem vm') = (mem_data (mem vm))(leaf := mem_data (mem vm) leaf OR f)))"
proof -
  obtain pa d rs where t: "riscv_mmu_translate cfg vm addr access = (pa, d, rs)"
    by (cases "riscv_mmu_translate cfg vm addr access")
  note td = translate_data [OF t]
  note r = res [unfolded mmu_op_in_page [OF page] t]
  show ?thesis
  proof (cases pa)
    case None
    with td have "d = mem_data (mem vm)" by simp
    with r None show ?thesis
      by (auto simp: riscv_trap_def)
  next
    case (Some paddr)
    have pt: "riscv_phys_translate (mem vm\<lparr>mem_data := d\<rparr>) paddr = riscv_phys_translate (mem vm) paddr"
      by (simp add: riscv_phys_translate_def)
    show ?thesis
    proof (cases "riscv_phys_translate (mem vm) paddr")
      case None
      with r Some pt td t show ?thesis
        by (auto simp: riscv_trap_def Let_def)
    next
      case (Some ptr)
      with r \<open>pa = Some paddr\<close> pt show ?thesis
        by (simp add: Let_def split: if_splits)
    qed
  qed
qed

lemma part_size_unat:
  "unat (addr AND PAGE_MASK) < 4096"
  "unat ((of_nat PAGE_SIZE :: 64 word) - (addr AND PAGE_MASK)) = 4096 - unat (addr AND PAGE_MASK)"
proof -
  have le: "addr AND PAGE_MASK \<le> 0xFFF"
    unfolding PAGE_MASK_def by (rule word_and_le1)
  then show "unat (addr AND PAGE_MASK) < 4096" by (simp add: word_le_nat_alt)
  have "addr AND PAGE_MASK \<le> of_nat PAGE_SIZE"
    using le by (simp add: PAGE_SIZE_def word_le_nat_alt)
  then show "unat ((of_nat PAGE_SIZE :: 64 word) - (addr AND PAGE_MASK)) = 4096 - unat (addr AND PAGE_MASK)"
    by (simp add: unat_sub PAGE_SIZE_def)
qed

lemma part_in_page: "riscv_block_in_page addr (of_nat PAGE_SIZE - (addr AND PAGE_MASK))"
  using part_size_unat [of addr] by (simp add: riscv_block_in_page_def PAGE_SIZE_def)

lemma mmu_op_translate_fails_page:
  assumes "riscv_block_in_page addr sz" and "fst (riscv_mmu_translate cfg vm addr access) = None"
  shows "riscv_mmu_op cfg vm addr dest sz access
           = (False, riscv_trap vm (page_fault_cause access) addr, dest)"
proof -
  obtain d rs where t: "riscv_mmu_translate cfg vm addr access = (None, d, rs)"
    using assms(2) by (cases "riscv_mmu_translate cfg vm addr access") auto
  from translate_data [OF t] have "d = mem_data (mem vm)" by simp
  then show ?thesis
    by (simp add: mmu_op_in_page [OF assms(1)] t)
qed

lemma mmu_op_translate_fails:
  assumes "fst (riscv_mmu_translate cfg vm addr access) = None"
  shows "riscv_mmu_op cfg vm addr dest sz access
           = (False, riscv_trap vm (page_fault_cause access) addr, dest)"
proof (cases "riscv_block_in_page addr sz")
  case True
  then show ?thesis using assms by (rule mmu_op_translate_fails_page)
next
  case False
  then show ?thesis
    by (subst riscv_mmu_op.simps)
      (simp add: mmu_op_translate_fails_page [OF part_in_page assms])
qed

lemma memcpy_round_trip:
  assumes "n \<le> length src" and "n \<le> 4096"
  shows "memcpy_from_ram (memcpy_to_ram d ptr src n) ptr n = take n src"
proof (rule nth_equalityI)
  show "length (memcpy_from_ram (memcpy_to_ram d ptr src n) ptr n) = length (take n src)"
    using assms by (simp add: memcpy_from_ram_def)
next
  fix i assume "i < length (memcpy_from_ram (memcpy_to_ram d ptr src n) ptr n)"
  then have i: "i < n" by (simp add: memcpy_from_ram_def)
  then have "unat (of_nat i :: 64 word) = i"
    using assms(2) by (simp add: unat_of_nat)
  then show "memcpy_from_ram (memcpy_to_ram d ptr src n) ptr n ! i = take n src ! i"
    using i by (simp add: memcpy_from_ram_def memcpy_to_ram_def)
qed

lemma mmu_op_store_ok:
  assumes page: "riscv_block_in_page addr sz"
    and res: "riscv_mmu_op cfg vm addr src sz MMU_WRITE = (True, vm1, dest1)"
  shows "\<exists>paddr d rs ptr.
           riscv_mmu_translate cfg vm addr MMU_WRITE = (Some paddr, d, rs)
           \<and> riscv_phys_translate (mem vm) paddr = Some ptr
           \<and> mem_data (mem vm1) = memcpy_to_ram d ptr src (unat sz)
           \<and> trap_log vm1 = trap_log vm \<and> dest1 = src"
proof -
  obtain pa d rs where t: "riscv_mmu_translate cfg vm addr MMU_WRITE = (pa, d, rs)"
    by (cases "riscv_mmu_translate cfg vm addr MMU_WRITE")
  note r = res [unfolded mmu_op_in_page [OF page] t]
  have pt: "\<And>paddr. riscv_phys_translate (mem vm\<lparr>mem_data := d\<rparr>) paddr = riscv_phys_translate (mem vm) paddr"
    by (simp add: riscv_phys_translate_def)
  show ?thesis
  proof (cases pa)
    case None
    with r show ?thesis by simp
  next
    case (Some paddr)
    show ?thesis
    proof (cases "riscv_phys_translate (mem vm) paddr")
      case None
      with r Some pt show ?thesis by (simp add: Let_def)
    next
      case (Some ptr)
      with r \<open>pa = Some paddr\<close> pt t show ?thesis
        by (auto simp: Let_def tlb_put_fields)
    qed
  qed
qed

lemma mmu_op_cross_store:
  fixes addr :: vaddr_t
  defines "part \<equiv> of_nat PAGE_SIZE - (addr AND PAGE_MASK)"
  assumes cross: "\<not> riscv_block_in_page addr sz"
    and len: "length dest = unat sz"
    and first: "riscv_mmu_op cfg vm addr (take (unat part) dest) part MMU_WRITE = (True, vm1, dest1)"
    and second: "fst (riscv_mmu_translate cfg vm1 (addr + part) MMU_WRITE) = None"
  shows "riscv_mmu_op cfg vm addr dest sz MMU_WRITE
           = (False, riscv_trap vm1 TRAP_STORE_PAGEFAULT (addr + part), dest)"
    and "trap_log (riscv_trap vm1 TRAP_STORE_PAGEFAULT (addr + part))
           = trap_log vm @ [(TRAP_STORE_PAGEFAULT, addr + part)]"
    and "addr + part \<noteq> addr"
    and "\<exists>paddr d rs ptr.
           riscv_mmu_translate cfg vm addr MMU_WRITE = (Some paddr, d, rs)
           \<and> riscv_phys_translate (mem vm) paddr = Some ptr
           \<and> memcpy_from_ram (mem_data (mem (riscv_trap vm1 TRAP_STORE_PAGEFAULT (addr + part))))
                 ptr (unat part) = take (unat part) dest"
proof -
  have pu: "unat part = 4096 - unat (addr AND PAGE_MASK)" "unat (addr AND PAGE_MASK) < 4096"
    unfolding part_def using part_size_unat [of addr] by simp_all
  then have part_lt: "unat part < unat sz" "0 < unat part" "unat part \<le> 4096"
    using cross by (simp_all add: riscv_block_in_page_def PAGE_SIZE_def)
  from mmu_op_store_ok [OF part_in_page first [unfolded part_def]]
  obtain paddr d rs ptr where
    t: "riscv_mmu_translate cfg vm addr MMU_WRITE = (Some paddr, d, rs)"
    and p: "riscv_phys_translate (mem vm) paddr = Some ptr"
    and m: "mem_data (mem vm1) = memcpy_to_ram d ptr (take (unat part) dest) (unat part)"
    and tl: "trap_log vm1 = trap_log vm" and d1: "dest1 = take (unat part) dest"
    unfolding part_def by blast
  show "riscv_mmu_op cfg vm addr dest sz MMU_WRITE
           = (False, riscv_trap vm1 TRAP_STORE_PAGEFAULT (addr + part), dest)"
    using cross first second d1
    by (subst riscv_mmu_op.simps)
      (simp add: part_def [symmetric] mmu_op_translate_fails page_fault_cause_def)
  show "trap_log (riscv_trap vm1 TRAP_STORE_PAGEFAULT (addr + part))
           = trap_log vm @ [(TRAP_STORE_PAGEFAULT, addr + part)]"
    by (simp add: riscv_trap_def tl)
  show "addr + part \<noteq> addr"
    using part_lt(2) by (auto simp: unat_eq_zero)
  have "memcpy_from_ram (mem_data (mem vm1)) ptr (unat part) = take (unat part) (take (unat part) dest)"
    unfolding m using part_lt len by (intro memcpy_round_trip) simp_all
  then show "\<exists>paddr d rs ptr.
           riscv_mmu_translate cfg vm addr MMU_WRITE = (Some paddr, d, rs)
           \<and> riscv_phys_translate (mem vm) paddr = Some ptr
           \<and> memcpy_from_ram (mem_data (mem (riscv_trap vm1 TRAP_STORE_PAGEFAULT (addr + part))))
                 ptr (unat part) = take (unat part) dest"
    using t p by (simp add: riscv_trap_def)
qed

lemmas cross_eval = riscv_mmu_translate_def riscv_mmu_translate_sv32_def hart_cross_def ram0_def
  hart0_def cfg_u8_bits walk_eval write_uint32_le_def atomic_cas_uint32_le_def mask_numeral
  CSR_STATUS_MPRV_MASK_def CSR_STATUS_MXR_MASK_def
  PRIVILEGE_SUPERVISOR_def CSR_SATP_MODE_PHYS_def CSR_SATP_MODE_SV32_def

lemma cross_block: "\<not> riscv_block_in_page 0xFFC 8" "riscv_block_in_page 0xFFC 4"
  "(of_nat PAGE_SIZE - (0xFFC AND PAGE_MASK) :: 64 word) = 4"
  by (simp_all add: riscv_block_in_page_def PAGE_MASK_def PAGE_SIZE_def)

lemma cross_first_translate:
  "riscv_mmu_translate cfg_u8 hart_cross 0xFFC MMU_WRITE
     = (Some 0x80003FFC, mem_data (mem hart_cross), [0x80001000, 0x80002000])"
  by (simp add: cross_eval)

lemma cross_first_eval:
  assumes "riscv_mmu_op cfg_u8 hart_cross 0xFFC [0x11, 0x22, 0x33, 0x44] 4 MMU_WRITE = (ok, vm1, d1)"
  shows "ok" "d1 = [0x11, 0x22, 0x33, 0x44]" "root_page_table vm1 = 0x80001000"
    "mmu_mode vm1 = CSR_SATP_MODE_SV32" "priv_mode vm1 = 1" "csr_status vm1 = 0"
    "mem_begin (mem vm1) = 0x80000000" "mem_size (mem vm1) = 0x10000"
    "mem_data (mem vm1) = memcpy_to_ram (mem_data (mem hart_cross)) 0x3FFC [0x11, 0x22, 0x33, 0x44] 4"
    "trap_log vm1 = []"
  using assms [unfolded mmu_op_in_page [OF cross_block(2)] cross_first_translate]
  by (auto simp: Let_def riscv_phys_translate_def riscv_tlb_put_def hart_cross_def hart0_def ram0_def
      split: option.splits)

lemma cross_second_translate:
  assumes "riscv_mmu_op cfg_u8 hart_cross 0xFFC [0x11, 0x22, 0x33, 0x44] 4 MMU_WRITE = (ok, vm1, d1)"
  shows "fst (riscv_mmu_translate cfg_u8 vm1 0x1000 MMU_WRITE) = None"
  using cross_first_eval(3-9) [OF assms]
  by (simp add: riscv_mmu_translate_def riscv_mmu_translate_sv32_def cfg_u8_bits walk_eval
      mask_numeral CSR_STATUS_MPRV_MASK_def CSR_STATUS_MXR_MASK_def PRIVILEGE_SUPERVISOR_def
      CSR_SATP_MODE_PHYS_def CSR_SATP_MODE_SV32_def memcpy_to_ram_def hart_cross_def ram0_def
      hart0_def write_uint32_le_def)

text \<open>
  Claim C3, as stated, fails in its last part. The dispatcher splits a store
  that crosses a page boundary into two calls of itself, and the second call
  raises the trap with its own address, the start of the second page: for
  the 8-byte store at \<open>0xFFC\<close> whose second page is not mapped, the first
  4 bytes are committed, the call returns false, and \<open>tval\<close> is
  \<open>0x1000\<close>, not \<open>0xFFC\<close>.
\<close>

theorem cross_page_store_counterexample:
  "\<not> riscv_block_in_page 0xFFC 8
   \<and> fst (riscv_mmu_op cfg_u8 hart_cross 0xFFC [0x11, 0x22, 0x33, 0x44] 4 MMU_WRITE)
   \<and> fst (riscv_mmu_translate cfg_u8
             (fst (snd (riscv_mmu_op cfg_u8 hart_cross 0xFFC [0x11, 0x22, 0x33, 0x44] 4 MMU_WRITE)))
             0x1000 MMU_WRITE) = None
   \<and> fst (riscv_mmu_op cfg_u8 hart_cross 0xFFC [0x11, 0x22, 0x33, 0x44, 0x55, 0x66, 0x77, 0x88] 8
             MMU_WRITE) = False
   \<and> riscv_phys_translate (mem hart_cross) 0x80003FFC = Some 0x3FFC
   \<and> memcpy_from_ram
         (mem_data (mem (fst (snd (riscv_mmu_op cfg_u8 hart_cross 0xFFC
            [0x11, 0x22, 0x33, 0x44, 0x55, 0x66, 0x77, 0x88] 8 MMU_WRITE))))) 0x3FFC 4
       = [0x11, 0x22, 0x33, 0x44]
   \<and> trap_log (fst (snd (riscv_mmu_op cfg_u8 hart_cross 0xFFC
            [0x11, 0x22, 0x33, 0x44, 0x55, 0x66, 0x77, 0x88] 8 MMU_WRITE)))
       = [(TRAP_STORE_PAGEFAULT, 0x1000)]
   \<and> trap_log (fst (snd (riscv_mmu_op cfg_u8 hart_cross 0xFFC
            [0x11, 0x22, 0x33, 0x44, 0x55, 0x66, 0x77, 0x88] 8 MMU_WRITE)))
       \<noteq> [(TRAP_STORE_PAGEFAULT, 0xFFC)]"
proof -
  let ?dest = "[0x11, 0x22, 0x33, 0x44, 0x55, 0x66, 0x77, 0x88] :: 8 word list"
  obtain ok vm1 d1 where
    f: "riscv_mmu_op cfg_u8 hart_cross 0xFFC [0x11, 0x22, 0x33, 0x44] 4 MMU_WRITE = (ok, vm1, d1)"
    by (cases "riscv_mmu_op cfg_u8 hart_cross 0xFFC [0x11, 0x22, 0x33, 0x44] 4 MMU_WRITE")
  note e = cross_first_eval [OF f]
  have f': "riscv_mmu_op cfg_u8 hart_cross 0xFFC (take (unat (of_nat PAGE_SIZE - (0xFFC AND PAGE_MASK) :: 64 word)) ?dest)
              (of_nat PAGE_SIZE - (0xFFC AND PAGE_MASK)) MMU_WRITE = (True, vm1, d1)"
    using f e(1) by (simp add: cross_block(3))
  have s: "fst (riscv_mmu_translate cfg_u8 vm1 (0xFFC + (of_nat PAGE_SIZE - (0xFFC AND PAGE_MASK))) MMU_WRITE) = None"
    using cross_second_translate [OF f] by (simp add: cross_block(3))
  have len: "length ?dest = unat (8 :: 64 word)" by simp
  have r: "riscv_mmu_op cfg_u8 hart_cross 0xFFC ?dest 8 MMU_WRITE
        = (False, riscv_trap vm1 TRAP_STORE_PAGEFAULT 0x1000, ?dest)"
    using mmu_op_cross_store(1) [OF cross_block(1) len f' s] by (simp add: cross_block(3))
  have m: "memcpy_from_ram (mem_data (mem vm1)) 0x3FFC 4 = [0x11, 0x22, 0x33, 0x44]"
    using memcpy_round_trip [of 4 "[0x11, 0x22, 0x33, 0x44]" "mem_data (mem hart_cross)" "0x3FFC"]
    by (simp add: e(9))
  show ?thesis
    using cross_block(1) f e(1,10) cross_second_translate [OF f] r m
    by (simp add: riscv_trap_def riscv_phys_translate_def hart_cross_def hart0_def ram0_def)
qed

text \<open>
  Claim C3, amended. For a store whose range crosses a page boundary, where
  the first page's access succeeds and the translation of the second page
  fails, the operation returns false, the first page's bytes are in RAM
  (reading them back at the host pointer of the first page's physical address
  gives the first \<open>part_size\<close> bytes of the buffer), and one trap is
  raised, with cause store page fault and \<open>tval = vaddr + part_size\<close>,
  the address of the second page, which is not \<open>vaddr\<close>. Here
  \<open>part_size = PAGE_SIZE - (vaddr & PAGE_MASK)\<close>.
\<close>

theorem cross_page_store_fault:
  fixes addr :: vaddr_t
  defines "part \<equiv> of_nat PAGE_SIZE - (addr AND PAGE_MASK)"
  assumes "\<not> riscv_block_in_page addr sz"
    and "length dest = unat sz"
    and "riscv_mmu_op cfg vm addr (take (unat part) dest) part MMU_WRITE = (True, vm1, dest1)"
    and "fst (riscv_mmu_translate cfg vm1 (addr + part) MMU_WRITE) = None"
  shows "\<exists>vm'. riscv_mmu_op cfg vm addr dest sz MMU_WRITE = (False, vm', dest)
           \<and> trap_log vm' = trap_log vm @ [(TRAP_STORE_PAGEFAULT, addr + part)]
           \<and> addr + part \<noteq> addr
           \<and> (\<exists>paddr d rs ptr.
                 riscv_mmu_translate cfg vm addr MMU_WRITE = (Some paddr, d, rs)
                 \<and> riscv_phys_translate (mem vm) paddr = Some ptr
                 \<and> memcpy_from_ram (mem_data (mem vm')) ptr (unat part) = take (unat part) dest)"
  using mmu_op_cross_store [OF assms(2,3) assms(4) [unfolded part_def] assms(5) [unfolded part_def]]
  unfolding part_def by blast

theorem cross_page_store_fault_witness:
  "\<not> riscv_block_in_page 0xFFC 8
   \<and> length [0x11, 0x22, 0x33, 0x44, 0x55, 0x66, 0x77, 0x88 :: 8 word] = unat (8 :: 64 word)
   \<and> fst (riscv_mmu_op cfg_u8 hart_cross 0xFFC [0x11, 0x22, 0x33, 0x44] 4 MMU_WRITE)
   \<and> fst (riscv_mmu_translate cfg_u8
             (fst (snd (riscv_mmu_op cfg_u8 hart_cross 0xFFC [0x11, 0x22, 0x33, 0x44] 4 MMU_WRITE)))
             0x1000 MMU_WRITE) = None
   \<and> (\<exists>vm'. riscv_mmu_op cfg_u8 hart_cross 0xFFC [0x11, 0x22, 0x33, 0x44, 0x55, 0x66, 0x77, 0x88] 8
             MMU_WRITE = (False, vm', [0x11, 0x22, 0x33, 0x44, 0x55, 0x66, 0x77, 0x88])
         \<and> trap_log vm' = [(TRAP_STORE_PAGEFAULT, 0x1000)]
         \<and> memcpy_from_ram (mem_data (mem vm')) 0x3FFC 4 = [0x11, 0x22, 0x33, 0x44])"
proof -
  let ?dest = "[0x11, 0x22, 0x33, 0x44, 0x55, 0x66, 0x77, 0x88] :: 8 word list"
  obtain ok vm1 d1 where
    f: "riscv_mmu_op cfg_u8 hart_cross 0xFFC [0x11, 0x22, 0x33, 0x44] 4 MMU_WRITE = (ok, vm1, d1)"
    by (cases "riscv_mmu_op cfg_u8 hart_cross 0xFFC [0x11, 0x22, 0x33, 0x44] 4 MMU_WRITE")
  note e = cross_first_eval [OF f]
  have f': "riscv_mmu_op cfg_u8 hart_cross 0xFFC (take (unat (of_nat PAGE_SIZE - (0xFFC AND PAGE_MASK) :: 64 word)) ?dest)
              (of_nat PAGE_SIZE - (0xFFC AND PAGE_MASK)) MMU_WRITE = (True, vm1, d1)"
    using f e(1) by (simp add: cross_block(3))
  have s: "fst (riscv_mmu_translate cfg_u8 vm1 (0xFFC + (of_nat PAGE_SIZE - (0xFFC AND PAGE_MASK))) MMU_WRITE) = None"
    using cross_second_translate [OF f] by (simp add: cross_block(3))
  have len: "length ?dest = unat (8 :: 64 word)" by simp
  from cross_page_store_fault [OF cross_block(1) len f' s]
  obtain vm' paddr d rs ptr where
    r: "riscv_mmu_op cfg_u8 hart_cross 0xFFC ?dest 8 MMU_WRITE = (False, vm', ?dest)"
    and t: "trap_log vm' = trap_log hart_cross @ [(TRAP_STORE_PAGEFAULT, 0x1000)]"
    and tr: "riscv_mmu_translate cfg_u8 hart_cross 0xFFC MMU_WRITE = (Some paddr, d, rs)"
    and p: "riscv_phys_translate (mem hart_cross) paddr = Some ptr"
    and m: "memcpy_from_ram (mem_data (mem vm')) ptr 4 = take 4 ?dest"
    by (auto simp: cross_block(3))
  from tr have "paddr = 0x80003FFC" by (simp add: cross_first_translate)
  with p have "ptr = 0x3FFC"
    by (simp add: riscv_phys_translate_def hart_cross_def hart0_def ram0_def)
  with r t m show ?thesis
    using cross_block(1) f e(1) cross_second_translate [OF f]
    by (simp add: hart_cross_def hart0_def)
qed

lemma s2_block: "riscv_block_in_page 0x403ABC 4"
  by (simp add: riscv_block_in_page_def PAGE_MASK_def PAGE_SIZE_def)

lemma s2_translate_eval:
  "riscv_mmu_translate cfg_u8 (hart_s2 0x20080001) 0x403ABC MMU_WRITE = (pa, d, rs)
   \<Longrightarrow> pa = Some 0x00801ABC \<and> rs = [0x80100004, 0x8020000C]"
  by (simp add: riscv_mmu_translate_def s2_eval CSR_STATUS_MPRV_MASK_def CSR_STATUS_MXR_MASK_def
      PRIVILEGE_SUPERVISOR_def CSR_SATP_MODE_PHYS_def CSR_SATP_MODE_SV32_def split: if_splits)

lemma s2_op_eval:
  assumes "riscv_mmu_op cfg_u8 (hart_s2 0x20080001) 0x403ABC [1, 2, 3, 4] 4 MMU_WRITE = (ok, vm', d')"
  shows "\<not> ok" "trap_log vm' = [(TRAP_STORE_FAULT, 0x403ABC)]"
proof -
  obtain pa d rs where
    t: "riscv_mmu_translate cfg_u8 (hart_s2 0x20080001) 0x403ABC MMU_WRITE = (pa, d, rs)"
    by (cases "riscv_mmu_translate cfg_u8 (hart_s2 0x20080001) 0x403ABC MMU_WRITE")
  from s2_translate_eval [OF t] have pa: "pa = Some 0x00801ABC" by simp
  note r = assms [unfolded mmu_op_in_page [OF s2_block] t pa]
  from r show "\<not> ok" "trap_log vm' = [(TRAP_STORE_FAULT, 0x403ABC)]"
    by (auto simp: Let_def riscv_phys_translate_def hart_s2_def ram_s2_def hart0_def riscv_trap_def
        access_fault_cause_def)
qed

theorem mmu_op_trap_leaves_state_witness:
  "riscv_block_in_page 0x403ABC 4
   \<and> \<not> fst (riscv_mmu_op cfg_u8 (hart_s2 0x20080001) 0x403ABC [1, 2, 3, 4] 4 MMU_WRITE)
   \<and> snd (snd (riscv_mmu_op cfg_u8 (hart_s2 0x20080001) 0x403ABC [1, 2, 3, 4] 4 MMU_WRITE))
        = [1, 2, 3, 4]
   \<and> tlb (fst (snd (riscv_mmu_op cfg_u8 (hart_s2 0x20080001) 0x403ABC [1, 2, 3, 4] 4 MMU_WRITE)))
        = tlb (hart_s2 0x20080001)
   \<and> trap_log (fst (snd (riscv_mmu_op cfg_u8 (hart_s2 0x20080001) 0x403ABC [1, 2, 3, 4] 4 MMU_WRITE)))
        = [(TRAP_STORE_FAULT, 0x403ABC)]"
proof -
  obtain ok vm' d' where
    r: "riscv_mmu_op cfg_u8 (hart_s2 0x20080001) 0x403ABC [1, 2, 3, 4] 4 MMU_WRITE = (ok, vm', d')"
    by (cases "riscv_mmu_op cfg_u8 (hart_s2 0x20080001) 0x403ABC [1, 2, 3, 4] 4 MMU_WRITE")
  note e = s2_op_eval [OF r]
  from r e(1) have r': "riscv_mmu_op cfg_u8 (hart_s2 0x20080001) 0x403ABC [1, 2, 3, 4] 4 MMU_WRITE
      = (False, vm', d')" by simp
  from mmu_op_trap_leaves_state [OF s2_block r']
  have "d' = [1, 2, 3, 4]" "tlb vm' = tlb (hart_s2 0x20080001)" by simp_all
  then show ?thesis using s2_block r' e(2) by simp
qed

lemma rv64_noncanonical:
  assumes "bitcnt_bits cfg = 8"
    and "sv_levels \<in> {SV39_LEVELS, SV48_LEVELS, SV57_LEVELS}"
    and "vaddr \<noteq> sign_extend vaddr (unat sv_levels * SV64_VPN_BITS + PAGE_SHIFT)"
  shows "riscv_mmu_translate_rv64 cfg vm vaddr access sv_levels = (None, mem_data (mem vm), [])"
proof -
  let ?code_bits = "to_bitcnt cfg (int (sv64_bit_off cfg sv_levels) + int SV64_VPN_BITS)"
  have le: "?code_bits - 1 \<le> unat sv_levels * SV64_VPN_BITS + PAGE_SHIFT - 1"
    using assms(1,2) bit_off_u8 [OF assms(1)]
    by (auto simp: to_bitcnt_def SV64_VPN_BITS_def PAGE_SHIFT_def SV39_LEVELS_def SV48_LEVELS_def
        SV57_LEVELS_def)
  have "vaddr \<noteq> sign_extend vaddr ?code_bits"
  proof
    assume "vaddr = sign_extend vaddr ?code_bits"
    then have "signed_take_bit (?code_bits - 1) vaddr = vaddr"
      by (simp add: sign_extend_def)
    from signed_take_bit_fix_mono [OF this le] assms(3) show False
      by (simp add: sign_extend_def)
  qed
  then show ?thesis
    by (simp add: riscv_mmu_translate_rv64_def Let_def)
qed

text \<open>
  Claim C2. With an 8-bit \<^verbatim>\<open>bitcnt_t\<close>, under Sv39, Sv48 and Sv57 a
  virtual address that is not its own sign extension from bit 38, 47 and 56
  respectively (from the low \<open>L * 9 + 12\<close> bits) makes the walker return
  false with no PTE loaded and RAM untouched; and when the hart translates
  in that mode (the effective privilege is at most S), the translation
  fails in the same way and the dispatcher returns false, having raised the
  page fault of the access class with \<open>tval\<close> the address, and having
  changed nothing else. (The code compares with the sign extension from
  bit 26, 35 and 44, see claim C1; a value that passes that test passes the
  one of the claim.)
\<close>

theorem sv64_noncanonical_faults:
  assumes "bitcnt_bits cfg = 8"
    and "(mode, sv_levels) \<in> {(CSR_SATP_MODE_SV39, SV39_LEVELS), (CSR_SATP_MODE_SV48, SV48_LEVELS),
                              (CSR_SATP_MODE_SV57, SV57_LEVELS)}"
    and "vaddr \<noteq> sign_extend vaddr (unat sv_levels * SV64_VPN_BITS + PAGE_SHIFT)"
  shows "riscv_mmu_translate_rv64 cfg vm vaddr access sv_levels = (None, mem_data (mem vm), [])
     \<and> (mmu_mode vm = mode
          \<and> (if csr_status vm AND CSR_STATUS_MPRV_MASK \<noteq> 0 \<and> access \<noteq> MMU_EXEC
              then ucast (CSR_STATUS_MPP (csr_status vm)) else priv_mode vm) \<le> PRIVILEGE_SUPERVISOR
        \<longrightarrow> riscv_mmu_translate cfg vm vaddr access = (None, mem_data (mem vm), [])
            \<and> riscv_mmu_op cfg vm vaddr dest sz access
                 = (False, riscv_trap vm (page_fault_cause access) vaddr, dest))"
proof (intro conjI impI)
  have lv: "sv_levels \<in> {SV39_LEVELS, SV48_LEVELS, SV57_LEVELS}" using assms(2) by auto
  show w: "riscv_mmu_translate_rv64 cfg vm vaddr access sv_levels = (None, mem_data (mem vm), [])"
    for access
    using assms(1) lv assms(3) by (rule rv64_noncanonical)
  assume a: "mmu_mode vm = mode
          \<and> (if csr_status vm AND CSR_STATUS_MPRV_MASK \<noteq> 0 \<and> access \<noteq> MMU_EXEC
              then ucast (CSR_STATUS_MPP (csr_status vm)) else priv_mode vm) \<le> PRIVILEGE_SUPERVISOR"
  show t: "riscv_mmu_translate cfg vm vaddr access = (None, mem_data (mem vm), [])"
    using a assms(2) w
    by (auto simp: riscv_mmu_translate_def Let_def CSR_SATP_MODE_PHYS_def CSR_SATP_MODE_SV32_def
        CSR_SATP_MODE_SV39_def CSR_SATP_MODE_SV48_def CSR_SATP_MODE_SV57_def)
  show "riscv_mmu_op cfg vm vaddr dest sz access
                 = (False, riscv_trap vm (page_fault_cause access) vaddr, dest)"
    by (rule mmu_op_translate_fails) (simp add: t)
qed

theorem sv64_noncanonical_faults_witness:
  "bitcnt_bits cfg_u8 = 8
   \<and> (CSR_SATP_MODE_SV39, SV39_LEVELS) \<in> {(CSR_SATP_MODE_SV39, SV39_LEVELS),
         (CSR_SATP_MODE_SV48, SV48_LEVELS), (CSR_SATP_MODE_SV57, SV57_LEVELS)}
   \<and> (0x8000000000 :: 64 word) \<noteq> sign_extend 0x8000000000 (unat SV39_LEVELS * SV64_VPN_BITS + PAGE_SHIFT)
   \<and> riscv_mmu_translate_rv64 cfg_u8 hart0 0x8000000000 MMU_READ SV39_LEVELS
        = (None, mem_data (mem hart0), [])
   \<and> mmu_mode hart0 = CSR_SATP_MODE_SV39
   \<and> (if csr_status hart0 AND CSR_STATUS_MPRV_MASK \<noteq> 0 \<and> MMU_READ \<noteq> MMU_EXEC
        then ucast (CSR_STATUS_MPP (csr_status hart0)) else priv_mode hart0) \<le> PRIVILEGE_SUPERVISOR
   \<and> riscv_mmu_op cfg_u8 hart0 0x8000000000 [0, 0, 0, 0] 4 MMU_READ
        = (False, riscv_trap hart0 TRAP_LOAD_PAGEFAULT 0x8000000000, [0, 0, 0, 0])"
proof -
  have h1: "bitcnt_bits cfg_u8 = 8" by (simp add: cfg_u8_def)
  have h2: "(CSR_SATP_MODE_SV39, SV39_LEVELS) \<in> {(CSR_SATP_MODE_SV39, SV39_LEVELS),
         (CSR_SATP_MODE_SV48, SV48_LEVELS), (CSR_SATP_MODE_SV57, SV57_LEVELS)}" by simp
  have h3: "(0x8000000000 :: 64 word) \<noteq> sign_extend 0x8000000000 (unat SV39_LEVELS * SV64_VPN_BITS + PAGE_SHIFT)"
    by (simp add: sign_extend_def SV39_LEVELS_def SV64_VPN_BITS_def PAGE_SHIFT_def)
  have h4: "mmu_mode hart0 = CSR_SATP_MODE_SV39" by (simp add: hart0_def)
  have h5: "(if csr_status hart0 AND CSR_STATUS_MPRV_MASK \<noteq> 0 \<and> MMU_READ \<noteq> MMU_EXEC
        then ucast (CSR_STATUS_MPP (csr_status hart0)) else priv_mode hart0) \<le> PRIVILEGE_SUPERVISOR"
    by (simp add: hart0_def PRIVILEGE_SUPERVISOR_def)
  show ?thesis
    using h1 h2 h3 h4 h5
      sv64_noncanonical_faults [OF h1 h2 h3, of hart0 MMU_READ "[0, 0, 0, 0]" 4]
    by (simp add: page_fault_cause_def mmu_ops_distinct)
qed

section \<open>Properties of the MMIO access engine\<close>

lemma upt4: "[0..<4] = [0, 1, 2, 3]" "[0..<unat (4 :: 8 word)] = [0, 1, 2, 3]"
  by (simp_all add: upt_rec)

lemma c9_loop: "new_size_loop (Suc (Suc fuel)) 4 6 = Some 8"
  by simp

lemma c9_inner:
  "riscv_mmio_read_unaligned (Suc fuel) dev4 4 0 = Inr ([Some 0, Some 1, Some 2, Some 3], [(4, 0)])"
  by (simp add: dev4_def stored_def upt4)

text \<open>
  Claim C9 does not hold of the code. \<open>riscv_mmio_read_unaligned\<close> computes
  \<open>new_size\<close> and then reads \<open>min_op_size\<close> bytes all the same. For the
  device with \<open>min_op_size = max_op_size = 4\<close>, a read of 4 bytes at offset
  2 computes \<open>new_size = 8\<close>, calls the device once, for 4 bytes at offset
  0, and copies \<open>tmp[2..5]\<close>: the last two bytes of the result were never
  read from the device. This is the result for every amount of fuel from 2.
\<close>

theorem mmio_unaligned_read_ignores_new_size:
  "new_size_loop (Suc (Suc fuel)) (min_op_size dev4) (unat (4 :: 8 word) + unat (2 :: 8 word)) = Some 8
   \<and> riscv_mmio_read_unaligned (Suc (Suc fuel)) dev4 4 2
       = Inr ([Some 2, Some 3, None, None], [(4, 0)])"
proof -
  have "riscv_mmio_read_unaligned (Suc (Suc fuel)) dev4 4 2
       = Inr ([Some 2, Some 3, None, None], [(4, 0)])"
    apply (subst riscv_mmio_read_unaligned.simps)
    apply (simp add: dev4_def stored_def upt4 Let_def nth_append)
    done
  then show ?thesis by (simp add: dev4_def)
qed

end
